theory Spec2Isabelle
  imports Complex_Main
begin

section \<open>Text\<close>

text \<open>
  A Python \<^verbatim>\<open>str\<close> is a sequence of Unicode code points, and the operator symbols of
  \<^verbatim>\<open>solvers.py\<close> lie outside ASCII, so a text is a list of code points.
  \<open>ustr\<close> writes an ASCII literal as such a list.
\<close>

type_synonym pystr = "nat list"

definition ustr :: "string \<Rightarrow> pystr" where
  "ustr s = map of_char s"

text \<open>
  The characters \<^verbatim>\<open>str.strip()\<close> removes when called with no argument, that is the
  code points for which \<^verbatim>\<open>str.isspace\<close> holds: U+0009..U+000D, U+001C..U+0020,
  U+0085, U+00A0, U+1680, U+2000..U+200A, U+2028, U+2029, U+202F, U+205F, U+3000.
\<close>

definition isspace :: "nat \<Rightarrow> bool" where
  "isspace c \<longleftrightarrow>
     (9 \<le> c \<and> c \<le> 13) \<or> (28 \<le> c \<and> c \<le> 32) \<or> c = 133 \<or> c = 160 \<or> c = 5760 \<or>
     (8192 \<le> c \<and> c \<le> 8202) \<or> c = 8232 \<or> c = 8233 \<or> c = 8239 \<or> c = 8287 \<or> c = 12288"

definition strip :: "pystr \<Rightarrow> pystr" where
  "strip s = rev (dropWhile isspace (rev (dropWhile isspace s)))"

text \<open>\<^verbatim>\<open>s.split(sep)\<close> for a separator of one character: one more segment than separators.\<close>

fun split :: "nat \<Rightarrow> pystr \<Rightarrow> pystr list" where
  "split sep [] = [[]]"
| "split sep (c # cs) =
     (if c = sep then [] # split sep cs
      else (case split sep cs of [] \<Rightarrow> [[c]] | seg # segs \<Rightarrow> (c # seg) # segs))"

text \<open>\<^verbatim>\<open>s.replace(a, b)\<close> for \<open>a\<close> and \<open>b\<close> of one character each.\<close>

definition replace :: "nat \<Rightarrow> nat \<Rightarrow> pystr \<Rightarrow> pystr" where
  "replace a b s = map (\<lambda>c. if c = a then b else c) s"

section \<open>Parsers\<close>

text \<open>
  \<^verbatim>\<open>parse_lista\<close> (the same body in all five classes):
  \<^verbatim>\<open>[item.strip().replace(" ", "_") for item in texto.split(",") if item.strip()]\<close>.
  The comma is U+002C (44), the space U+0020 (32), the underscore U+005F (95).
\<close>

definition parse_lista :: "pystr \<Rightarrow> pystr list" where
  "parse_lista texto =
     map (\<lambda>item. replace 32 95 (strip item))
       (filter (\<lambda>item. strip item \<noteq> []) (split 44 texto))"

section \<open>Data of a request\<close>

text \<open>
  A constraint row is a dictionary with the keys \<^verbatim>\<open>parametro\<close> (linear classes) or
  \<^verbatim>\<open>expresion\<close> (expression classes), \<^verbatim>\<open>operador\<close> and \<^verbatim>\<open>valor\<close>. The value of an
  input row is what the form hands over, a text or a number; the value of a normalized
  row is a float. A row has all its keys, as \<^verbatim>\<open>interfaz\<close> builds it, so that
  \<^verbatim>\<open>restr.get\<close> finds each. The type \<open>'f\<close> stands for Python's \<^verbatim>\<open>float\<close>, whose values are only
  carried around here, never computed with.
\<close>

datatype 'f entrada = Texto pystr | Numero 'f

record 'v fila =
  operador :: pystr
  valor :: 'v

record 'v restriccion = "'v fila" +
  parametro :: pystr

record 'v restriccion_expr = "'v fila" +
  expresion :: pystr

datatype sentido = Maximize | Minimize

datatype excepcion =
    NameError pystr | SyntaxError | TypeError | AttributeError pystr | KeyError pystr
  | ZeroDivisionError | OtraExcepcion nat

text \<open>
  What a run shows and does, in order: one constructor per Streamlit call of the source
  that reports something, carrying the data its message is formatted from, and one for
  the call of the backend, \<^verbatim>\<open>SolverFactory(name).solve(model)\<close>.
\<close>

datatype 'f evento =
    Error_parametro nat pystr
  | Error_operador nat pystr
  | Error_valor nat "'f entrada"
  | Error_cobertura pystr
  | Error_objetivo excepcion
  | Error_restriccion excepcion
  | Error_sin_optimo
  | Exito
  | Valor_objetivo 'f
  | Valor_variable pystr 'f
  | Estado_solver pystr
  | Condicion_terminacion pystr
  | Llamada_solver pystr

text \<open>The attributes of the objects: \<^verbatim>\<open>LP\<close> and \<^verbatim>\<open>IP\<close> have the same ones, \<^verbatim>\<open>MILP\<close> and
  \<^verbatim>\<open>MINLP\<close> too. A dictionary is an association list, read with \<open>map_of\<close>.\<close>

record 'r objeto =
  tipo_objetivo :: sentido
  restricciones :: "'r list"

record 'f LP = "'f restriccion objeto" +
  elementos :: "pystr list"
  parametros :: "(pystr \<times> (pystr \<times> 'f) list) list"
  param_objetivo :: pystr

record 'f objeto_expr = "'f restriccion_expr objeto" +
  funcion_objetivo :: pystr

record 'f NLP = "'f objeto_expr" +
  variables :: "pystr list"

record 'f MILP = "'f objeto_expr" +
  variables_enteras :: "pystr list"
  variables_continuas :: "pystr list"

section \<open>Constraint normalizer, linear mode\<close>

text \<open>The dictionary \<^verbatim>\<open>operadores_validos\<close>; its keys are U+2264, U+2265, \<^verbatim>\<open>=\<close>, \<^verbatim>\<open><\<close>,
  \<^verbatim>\<open>>\<close> and U+2260.\<close>

definition operadores_validos :: "(pystr \<times> pystr) list" where
  "operadores_validos =
     [([8804], ustr ''<=''), ([8805], ustr ''>=''), (ustr ''='', ustr ''==''),
      (ustr ''<'', ustr ''<''), (ustr ''>'', ustr ''>''), ([8800], ustr ''!='')]"

text \<open>
  \<^verbatim>\<open>float(valor)\<close>: a number converts to itself; a text is read by Python's float
  parser, which is not part of the repository and is the parameter \<open>fl\<close>
  (\<open>None\<close> is \<^verbatim>\<open>ValueError\<close>).
\<close>

definition py_float :: "(pystr \<Rightarrow> 'f option) \<Rightarrow> 'f entrada \<Rightarrow> 'f option" where
  "py_float fl v = (case v of Numero n \<Rightarrow> Some n | Texto s \<Rightarrow> fl s)"

text \<open>
  The loop of \<^verbatim>\<open>parse_restricciones\<close> over \<^verbatim>\<open>enumerate(restricciones_input)\<close>; the state is
  the list \<^verbatim>\<open>restricciones\<close> built so far and the errors shown so far. Each \<^verbatim>\<open>continue\<close>
  goes on with the next row.
\<close>

fun parse_filas ::
  "(pystr \<Rightarrow> 'f option) \<Rightarrow> pystr list \<Rightarrow> nat \<Rightarrow> 'f entrada restriccion list \<Rightarrow>
   'f restriccion list \<times> 'f evento list \<Rightarrow> 'f restriccion list \<times> 'f evento list" where
  "parse_filas fl param_names idx [] estado = estado"
| "parse_filas fl param_names idx (restr # resto) (rs, avisos) =
     (if parametro restr \<notin> set param_names then
        parse_filas fl param_names (idx + 1) resto
          (rs, avisos @ [Error_parametro (idx + 1) (parametro restr)])
      else (case map_of operadores_validos (operador restr) of
          None \<Rightarrow>
            parse_filas fl param_names (idx + 1) resto
              (rs, avisos @ [Error_operador (idx + 1) (operador restr)])
        | Some canonico \<Rightarrow>
            (case py_float fl (valor restr) of
               None \<Rightarrow>
                 parse_filas fl param_names (idx + 1) resto
                   (rs, avisos @ [Error_valor (idx + 1) (valor restr)])
             | Some v \<Rightarrow>
                 parse_filas fl param_names (idx + 1) resto
                   (rs @ [\<lparr>operador = canonico, valor = v, parametro = parametro restr\<rparr>],
                    avisos))))"

definition parse_restricciones ::
  "(pystr \<Rightarrow> 'f option) \<Rightarrow> 'f entrada restriccion list \<Rightarrow> pystr list \<Rightarrow>
   'f restriccion list \<times> 'f evento list" where
  "parse_restricciones fl restricciones_input param_names =
     parse_filas fl param_names 0 restricciones_input ([], [])"

section \<open>Parameter validator\<close>

text \<open>
  \<^verbatim>\<open>validar_parametros\<close>: the first parameter whose keys are not the set of elements is
  reported and the function returns \<^verbatim>\<open>False\<close> at once.
\<close>

fun validar_parametros :: "('f, 'z) LP_scheme \<Rightarrow> pystr list \<Rightarrow> bool \<times> 'f evento list" where
  "validar_parametros self [] = (True, [])"
| "validar_parametros self (nombre_param # resto) =
     (let valores = (case map_of (parametros self) nombre_param of None \<Rightarrow> [] | Some t \<Rightarrow> t)
      in if set (map fst valores) \<noteq> set (elementos self)
         then (False, [Error_cobertura nombre_param])
         else validar_parametros self resto)"

section \<open>Model builder, linear classes\<close>

text \<open>
  The Pyomo model is kept as the data the source hands to Pyomo: the index set, the
  parameter tables, the decision variables with their domain, the objective and the
  list of constraints. An expression of a linear class is the list of its products
  \<^verbatim>\<open>P[i] * x[i]\<close>, a constraint is an expression, the comparison applied to it and the
  right-hand side. Names of parameters and variables are taken not to collide with the
  attributes the builder itself sets (\<^verbatim>\<open>i\<close>, \<^verbatim>\<open>x\<close>, \<^verbatim>\<open>vars\<close>, \<^verbatim>\<open>objetivo\<close>,
  \<^verbatim>\<open>restricciones\<close>). What Pyomo does with a component it is handed (which constraints
  \<^verbatim>\<open>ConstraintList.add\<close> accepts, for instance) is not in the source and is not modelled:
  adding a constraint records it.
\<close>

datatype dominio = NonNegativeReals | NonNegativeIntegers | Reals | Integers

datatype relacion = Le | Ge | Eq | Lt | Gt | Ne

record ('f, 'e) modelo =
  m_i :: "pystr list"
  m_params :: "(pystr \<times> (pystr \<times> 'f) list) list"
  m_vars :: "(pystr \<times> dominio) list"
  m_objetivo :: "'e \<times> sentido"
  m_restricciones :: "('e \<times> relacion \<times> 'f) list"

text \<open>A Pyomo \<^verbatim>\<open>Set\<close> keeps the first occurrence of each member, in order.\<close>

definition pyomo_Set :: "pystr list \<Rightarrow> pystr list" where
  "pyomo_Set xs = rev (remdups (rev xs))"

text \<open>
  \<^verbatim>\<open>sum(getattr(model, p)[i] * model.x[i] for i in model.i)\<close>: each step looks the
  parameter and then its value for \<open>i\<close> up, and the first lookup that fails raises.
\<close>

fun suma_lineal ::
  "(pystr \<times> (pystr \<times> 'f) list) list \<Rightarrow> pystr \<Rightarrow> pystr list \<Rightarrow> excepcion + ('f \<times> pystr) list" where
  "suma_lineal ps p [] = Inr []"
| "suma_lineal ps p (i # is) =
     (case map_of ps p of
        None \<Rightarrow> Inl (AttributeError p)
      | Some tabla \<Rightarrow>
          (case map_of tabla i of
             None \<Rightarrow> Inl (KeyError i)
           | Some c \<Rightarrow>
               (case suma_lineal ps p is of
                  Inl e \<Rightarrow> Inl e
                | Inr resto \<Rightarrow> Inr ((c, i) # resto))))"

text \<open>
  The chain \<^verbatim>\<open>if op == "<=": ... elif op == ">=": ...\<close> that every builder uses: the
  first test that holds decides the comparison, and with none the row adds nothing.
\<close>

definition rama :: "pystr \<Rightarrow> relacion option" where
  "rama op =
     (if op = ustr ''<='' then Some Le
      else if op = ustr ''>='' then Some Ge
      else if op = ustr ''=='' then Some Eq
      else if op = ustr ''<'' then Some Lt
      else if op = ustr ''>'' then Some Gt
      else if op = ustr ''!='' then Some Ne
      else None)"

definition agregar :: "'e \<Rightarrow> pystr \<Rightarrow> 'f \<Rightarrow> ('e \<times> relacion \<times> 'f) list \<Rightarrow> ('e \<times> relacion \<times> 'f) list" where
  "agregar expr op v lista = (case rama op of None \<Rightarrow> lista | Some rel \<Rightarrow> lista @ [(expr, rel, v)])"

fun agregar_lineales ::
  "(pystr \<times> (pystr \<times> 'f) list) list \<Rightarrow> pystr list \<Rightarrow> 'f restriccion list \<Rightarrow>
   (('f \<times> pystr) list \<times> relacion \<times> 'f) list \<Rightarrow> excepcion + (('f \<times> pystr) list \<times> relacion \<times> 'f) list" where
  "agregar_lineales ps is [] lista = Inr lista"
| "agregar_lineales ps is (restr # resto) lista =
     (case suma_lineal ps (parametro restr) is of
        Inl e \<Rightarrow> Inl e
      | Inr expr \<Rightarrow> agregar_lineales ps is resto (agregar expr (operador restr) (valor restr) lista))"

text \<open>
  The part of \<^verbatim>\<open>construir_modelo\<close> of \<^verbatim>\<open>LP\<close> and \<^verbatim>\<open>IP\<close> before the solver is called. The two
  bodies differ in the domain of \<^verbatim>\<open>model.x\<close> only, the argument \<open>dm\<close>.
\<close>

definition armar_modelo_lineal ::
  "dominio \<Rightarrow> ('f, 'z) LP_scheme \<Rightarrow> excepcion + ('f, ('f \<times> pystr) list) modelo" where
  "armar_modelo_lineal dm self =
     (let i = pyomo_Set (elementos self) in
      case suma_lineal (parametros self) (param_objetivo self) i of
        Inl e \<Rightarrow> Inl e
      | Inr expr_objetivo \<Rightarrow>
          (case agregar_lineales (parametros self) i (restricciones self) [] of
             Inl e \<Rightarrow> Inl e
           | Inr lista \<Rightarrow>
               Inr \<lparr>m_i = i, m_params = parametros self, m_vars = map (\<lambda>e. (e, dm)) i,
                    m_objetivo = (expr_objetivo, tipo_objetivo self), m_restricciones = lista\<rparr>))"

text \<open>
  What the backend returns and loads into the model: status, termination condition,
  the value of the objective and of each variable. The backend is the parameter
  \<open>solve\<close>, called with the name given to \<^verbatim>\<open>SolverFactory\<close> and the model.
\<close>

record 'f resultado =
  status :: pystr
  termination_condition :: pystr
  valor_objetivo :: 'f
  valor_de :: "pystr \<Rightarrow> 'f"

text \<open>
  The report after the solver returns, the same in every class up to the list of names
  whose values are written; \<^verbatim>\<open>MILP\<close> alone (\<open>detalle\<close>) also writes the raw status and
  termination condition when there is no optimum. The values are shown rounded to two
  or four decimals; the events carry the values themselves.
\<close>

definition interpretar :: "bool \<Rightarrow> pystr list \<Rightarrow> ('f, 'z) resultado_scheme \<Rightarrow> 'f evento list" where
  "interpretar detalle nombres resultado =
     (if status resultado = ustr ''ok'' \<and> termination_condition resultado = ustr ''optimal''
      then Exito # Valor_objetivo (valor_objetivo resultado) #
           map (\<lambda>v. Valor_variable v (valor_de resultado v)) nombres
      else Error_sin_optimo #
           (if detalle
            then [Estado_solver (status resultado),
                  Condicion_terminacion (termination_condition resultado)]
            else []))"

definition construir_modelo_lineal ::
  "(pystr \<Rightarrow> ('f, ('f \<times> pystr) list) modelo \<Rightarrow> 'f resultado) \<Rightarrow> dominio \<Rightarrow> ('f, 'z) LP_scheme \<Rightarrow>
   excepcion + 'f evento list" where
  "construir_modelo_lineal solve dm self =
     (case armar_modelo_lineal dm self of
        Inl e \<Rightarrow> Inl e
      | Inr model \<Rightarrow>
          (let resultado = solve (ustr ''glpk'') model in
           Inr (Llamada_solver (ustr ''glpk'') # interpretar False (m_i model) resultado)))"

text \<open>\<^verbatim>\<open>LP.construir_modelo\<close>: \<^verbatim>\<open>model.x = Var(model.i, within=NonNegativeReals)\<close>.\<close>

definition LP_modelo :: "('f, 'z) LP_scheme \<Rightarrow> excepcion + ('f, ('f \<times> pystr) list) modelo" where
  "LP_modelo self = armar_modelo_lineal NonNegativeReals self"

definition LP_construir_modelo ::
  "(pystr \<Rightarrow> ('f, ('f \<times> pystr) list) modelo \<Rightarrow> 'f resultado) \<Rightarrow> ('f, 'z) LP_scheme \<Rightarrow>
   excepcion + 'f evento list" where
  "LP_construir_modelo solve self = construir_modelo_lineal solve NonNegativeReals self"

text \<open>\<^verbatim>\<open>IP.construir_modelo\<close>: \<^verbatim>\<open>model.x = Var(model.i, domain=NonNegativeIntegers)\<close>.\<close>

definition IP_modelo :: "('f, 'z) LP_scheme \<Rightarrow> excepcion + ('f, ('f \<times> pystr) list) modelo" where
  "IP_modelo self = armar_modelo_lineal NonNegativeIntegers self"

definition IP_construir_modelo ::
  "(pystr \<Rightarrow> ('f, ('f \<times> pystr) list) modelo \<Rightarrow> 'f resultado) \<Rightarrow> ('f, 'z) LP_scheme \<Rightarrow>
   excepcion + 'f evento list" where
  "IP_construir_modelo solve self = construir_modelo_lineal solve NonNegativeIntegers self"

text \<open>
  The end of \<^verbatim>\<open>interfaz\<close> of \<^verbatim>\<open>LP\<close> and \<^verbatim>\<open>IP\<close> once the button is pressed:
  \<^verbatim>\<open>if self.validar_parametros(param_names): self.construir_modelo()\<close>.
\<close>

definition interfaz_resolver ::
  "(pystr \<Rightarrow> ('f, ('f \<times> pystr) list) modelo \<Rightarrow> 'f resultado) \<Rightarrow> dominio \<Rightarrow> ('f, 'z) LP_scheme \<Rightarrow>
   pystr list \<Rightarrow> excepcion + 'f evento list" where
  "interfaz_resolver solve dm self param_names =
     (case validar_parametros self param_names of
        (False, avisos) \<Rightarrow> Inr avisos
      | (True, avisos) \<Rightarrow>
          (case construir_modelo_lineal solve dm self of
             Inl e \<Rightarrow> Inl e
           | Inr salida \<Rightarrow> Inr (avisos @ salida)))"

section \<open>Model builder, expression classes\<close>

text \<open>
  What an expression evaluates to: a number, the handle of a Pyomo variable, a built-in
  function, or the application of an operator or function to values (Pyomo builds such
  terms from its handles).
\<close>

datatype 'f pyval = Num 'f | Var pystr | Builtin pystr | Aplicacion pystr "'f pyval list"

type_synonym 'f ambito = "pystr \<Rightarrow> 'f pyval option"

text \<open>
  Python's \<^verbatim>\<open>eval(source, globals, locals)\<close> is the parameter \<open>ev\<close> of the builders; it
  returns the value or the exception raised. \<^verbatim>\<open>try: ... except Exception as e:
  st.error(...); return\<close> around the objective, and around each constraint, turns an
  exception into one report and the end of the run.
\<close>

type_synonym 'f evaluador = "pystr \<Rightarrow> 'f ambito \<Rightarrow> 'f ambito \<Rightarrow> excepcion + 'f pyval"

text \<open>The loop over \<^verbatim>\<open>self.restricciones\<close>; it stops at the first exception.\<close>

fun agregar_expresiones ::
  "'f evaluador \<Rightarrow> 'f ambito \<Rightarrow> ('f, 'z) restriccion_expr_scheme list \<Rightarrow>
   ('f pyval \<times> relacion \<times> 'f) list \<Rightarrow> excepcion + ('f pyval \<times> relacion \<times> 'f) list" where
  "agregar_expresiones ev vars [] lista = Inr lista"
| "agregar_expresiones ev vars (restr # resto) lista =
     (case ev (expresion restr) Map.empty vars of
        Inl e \<Rightarrow> Inl e
      | Inr lado_izq \<Rightarrow>
          agregar_expresiones ev vars resto (agregar lado_izq (operador restr) (valor restr) lista))"

text \<open>
  Objective and constraints of \<^verbatim>\<open>NLP\<close>, \<^verbatim>\<open>MILP\<close> and \<^verbatim>\<open>MINLP\<close>, whose bodies differ in the
  variables declared (\<open>declaradas\<close>) and in the dictionary handed to \<^verbatim>\<open>eval\<close> as locals
  (\<open>vars\<close>). \<open>Inl\<close> is the error reported when the run stops before the solver.
\<close>

definition armar_modelo_expr ::
  "'f evaluador \<Rightarrow> (pystr \<times> dominio) list \<Rightarrow> 'f ambito \<Rightarrow> ('f, 'z) objeto_expr_scheme \<Rightarrow>
   'f evento + ('f, 'f pyval) modelo" where
  "armar_modelo_expr ev declaradas vars self =
     (case ev (funcion_objetivo self) Map.empty vars of
        Inl e \<Rightarrow> Inl (Error_objetivo e)
      | Inr expr_obj \<Rightarrow>
          (case agregar_expresiones ev vars (restricciones self) [] of
             Inl e \<Rightarrow> Inl (Error_restriccion e)
           | Inr lista \<Rightarrow>
               Inr \<lparr>m_i = [], m_params = [], m_vars = declaradas,
                    m_objetivo = (expr_obj, tipo_objetivo self), m_restricciones = lista\<rparr>))"

text \<open>The keys of a dictionary built by a comprehension over a list: first occurrences,
  in order.\<close>

definition claves :: "pystr list \<Rightarrow> pystr list" where
  "claves xs = rev (remdups (rev xs))"

text \<open>\<^verbatim>\<open>{v: handle of v for v in xs}\<close>.\<close>

definition enlace :: "pystr list \<Rightarrow> 'f ambito" where
  "enlace xs = map_of (map (\<lambda>v. (v, Var v)) xs)"

text \<open>
  \<^verbatim>\<open>NLP.construir_modelo\<close>: \<^verbatim>\<open>model.vars = Var(self.variables, domain=Reals, initialize=1.0)\<close>,
  solver \<^verbatim>\<open>ipopt\<close>, values written for \<^verbatim>\<open>v in self.variables\<close>.
\<close>

definition NLP_variables :: "('f, 'z) NLP_scheme \<Rightarrow> (pystr \<times> dominio) list" where
  "NLP_variables self = map (\<lambda>v. (v, Reals)) (pyomo_Set (variables self))"

definition NLP_modelo :: "'f evaluador \<Rightarrow> ('f, 'z) NLP_scheme \<Rightarrow> 'f evento + ('f, 'f pyval) modelo" where
  "NLP_modelo ev self = armar_modelo_expr ev (NLP_variables self) (enlace (variables self)) self"

definition NLP_construir_modelo ::
  "'f evaluador \<Rightarrow> (pystr \<Rightarrow> ('f, 'f pyval) modelo \<Rightarrow> 'f resultado) \<Rightarrow> ('f, 'z) NLP_scheme \<Rightarrow>
   'f evento list" where
  "NLP_construir_modelo ev solve self =
     (case NLP_modelo ev self of
        Inl aviso \<Rightarrow> [aviso]
      | Inr model \<Rightarrow>
          (let resultado = solve (ustr ''ipopt'') model in
           Llamada_solver (ustr ''ipopt'') # interpretar False (variables self) resultado))"

text \<open>
  \<^verbatim>\<open>MILP.construir_modelo\<close>: \<^verbatim>\<open>setattr(model, v, Var(domain=Integers))\<close> for the integer
  names, then \<^verbatim>\<open>setattr(model, v, Var(domain=Reals))\<close> for the continuous ones; setting an
  attribute that exists replaces the component. \<^verbatim>\<open>all_vars\<close> maps the names of both lists
  to the components the model then has; solver \<^verbatim>\<open>glpk\<close>.
\<close>

definition setattr :: "(pystr \<times> 'a) list \<Rightarrow> pystr \<Rightarrow> 'a \<Rightarrow> (pystr \<times> 'a) list" where
  "setattr model v c = filter (\<lambda>kc. fst kc \<noteq> v) model @ [(v, c)]"

definition MILP_variables :: "('f, 'z) MILP_scheme \<Rightarrow> (pystr \<times> dominio) list" where
  "MILP_variables self =
     fold (\<lambda>v model. setattr model v Reals) (variables_continuas self)
       (fold (\<lambda>v model. setattr model v Integers) (variables_enteras self) [])"

definition MILP_modelo :: "'f evaluador \<Rightarrow> ('f, 'z) MILP_scheme \<Rightarrow> 'f evento + ('f, 'f pyval) modelo" where
  "MILP_modelo ev self =
     armar_modelo_expr ev (MILP_variables self)
       (enlace (variables_enteras self @ variables_continuas self)) self"

definition MILP_construir_modelo ::
  "'f evaluador \<Rightarrow> (pystr \<Rightarrow> ('f, 'f pyval) modelo \<Rightarrow> 'f resultado) \<Rightarrow> ('f, 'z) MILP_scheme \<Rightarrow>
   'f evento list" where
  "MILP_construir_modelo ev solve self =
     (case MILP_modelo ev self of
        Inl aviso \<Rightarrow> [aviso]
      | Inr model \<Rightarrow>
          (let resultado = solve (ustr ''glpk'') model in
           Llamada_solver (ustr ''glpk'') #
           interpretar True (claves (variables_enteras self @ variables_continuas self)) resultado))"

text \<open>
  \<^verbatim>\<open>MINLP.construir_modelo\<close>: \<^verbatim>\<open>model.vars = Var(todas_las_vars, domain=Reals)\<close> over both
  lists, then \<^verbatim>\<open>model.vars[v].domain = Integers\<close> for the integer names; the locals of
  \<^verbatim>\<open>eval\<close> and the values written range over \<^verbatim>\<open>model.vars\<close>; solver \<^verbatim>\<open>ipopt\<close>.
\<close>

definition set_domain :: "(pystr \<times> dominio) list \<Rightarrow> pystr \<Rightarrow> dominio \<Rightarrow> (pystr \<times> dominio) list" where
  "set_domain vars v d = map (\<lambda>kd. if fst kd = v then (v, d) else kd) vars"

definition MINLP_variables :: "('f, 'z) MILP_scheme \<Rightarrow> (pystr \<times> dominio) list" where
  "MINLP_variables self =
     (let todas_las_vars = variables_enteras self @ variables_continuas self
      in fold (\<lambda>v vars. set_domain vars v Integers) (variables_enteras self)
           (map (\<lambda>v. (v, Reals)) (pyomo_Set todas_las_vars)))"

definition MINLP_modelo :: "'f evaluador \<Rightarrow> ('f, 'z) MILP_scheme \<Rightarrow> 'f evento + ('f, 'f pyval) modelo" where
  "MINLP_modelo ev self =
     armar_modelo_expr ev (MINLP_variables self)
       (enlace (map fst (MINLP_variables self))) self"

definition MINLP_construir_modelo ::
  "'f evaluador \<Rightarrow> (pystr \<Rightarrow> ('f, 'f pyval) modelo \<Rightarrow> 'f resultado) \<Rightarrow> ('f, 'z) MILP_scheme \<Rightarrow>
   'f evento list" where
  "MINLP_construir_modelo ev solve self =
     (case MINLP_modelo ev self of
        Inl aviso \<Rightarrow> [aviso]
      | Inr model \<Rightarrow>
          (let resultado = solve (ustr ''ipopt'') model in
           Llamada_solver (ustr ''ipopt'') #
           interpretar False (map fst (MINLP_variables self)) resultado))"

section \<open>Python's eval\<close>

text \<open>
  The expressions the forms are meant for: numbers, names, binary and unary operators,
  and calls. \<^verbatim>\<open>eval\<close> parses the text (the parser is Python's, the field \<open>parse\<close>, with
  \<open>None\<close> for a syntax error) and evaluates the expression.
\<close>

datatype 'f expr =
    Constant 'f
  | Name pystr
  | BinOp "'f expr" pystr "'f expr"
  | UnaryOp pystr "'f expr"
  | Call "'f expr" "'f expr list"

text \<open>
  What the evaluation needs from the interpreter: the parser, the module of built-in
  names, and what calling a built-in function on given arguments does.
\<close>

record 'f python =
  parse :: "pystr \<Rightarrow> 'f expr option"
  builtins :: "'f ambito"
  llamar :: "pystr \<Rightarrow> 'f pyval list \<Rightarrow> excepcion + 'f pyval"

text \<open>
  A name is looked up in the locals, then in the globals, then in the built-ins, and
  raises \<^verbatim>\<open>NameError\<close> when none has it. Operands are evaluated from left to right. An
  operator applied to numbers and handles gives a term (the arithmetic of floats is not
  computed here); a built-in function is no operand.
\<close>

definition buscar :: "'f ambito \<Rightarrow> 'f ambito \<Rightarrow> 'f ambito \<Rightarrow> pystr \<Rightarrow> excepcion + 'f pyval" where
  "buscar locales globales integradas x =
     (case locales x of
        Some v \<Rightarrow> Inr v
      | None \<Rightarrow>
          (case globales x of
             Some v \<Rightarrow> Inr v
           | None \<Rightarrow>
               (case integradas x of
                  Some v \<Rightarrow> Inr v
                | None \<Rightarrow> Inl (NameError x))))"

definition es_funcion :: "'f pyval \<Rightarrow> bool" where
  "es_funcion v = (case v of Builtin n \<Rightarrow> True | _ \<Rightarrow> False)"

definition operar :: "pystr \<Rightarrow> 'f pyval list \<Rightarrow> excepcion + 'f pyval" where
  "operar op vs = (if list_ex es_funcion vs then Inl TypeError else Inr (Aplicacion op vs))"

fun evaluar :: "'f python \<Rightarrow> 'f ambito \<Rightarrow> 'f ambito \<Rightarrow> 'f expr \<Rightarrow> excepcion + 'f pyval"
  and evaluar_args :: "'f python \<Rightarrow> 'f ambito \<Rightarrow> 'f ambito \<Rightarrow> 'f expr list \<Rightarrow> excepcion + 'f pyval list"
where
  "evaluar py locales globales (Constant c) = Inr (Num c)"
| "evaluar py locales globales (Name x) = buscar locales globales (builtins py) x"
| "evaluar py locales globales (BinOp l op r) =
     (case evaluar py locales globales l of
        Inl e \<Rightarrow> Inl e
      | Inr a \<Rightarrow>
          (case evaluar py locales globales r of
             Inl e \<Rightarrow> Inl e
           | Inr b \<Rightarrow> operar op [a, b]))"
| "evaluar py locales globales (UnaryOp op x) =
     (case evaluar py locales globales x of
        Inl e \<Rightarrow> Inl e
      | Inr a \<Rightarrow> operar op [a])"
| "evaluar py locales globales (Call f args) =
     (case evaluar py locales globales f of
        Inl e \<Rightarrow> Inl e
      | Inr g \<Rightarrow>
          (case evaluar_args py locales globales args of
             Inl e \<Rightarrow> Inl e
           | Inr vs \<Rightarrow> (case g of Builtin n \<Rightarrow> llamar py n vs | _ \<Rightarrow> Inl TypeError)))"
| "evaluar_args py locales globales [] = Inr []"
| "evaluar_args py locales globales (a # as) =
     (case evaluar py locales globales a of
        Inl e \<Rightarrow> Inl e
      | Inr v \<Rightarrow>
          (case evaluar_args py locales globales as of
             Inl e \<Rightarrow> Inl e
           | Inr vs \<Rightarrow> Inr (v # vs)))"

text \<open>
  \<^verbatim>\<open>eval(source, globals, locals)\<close>. Before evaluating, \<^verbatim>\<open>eval\<close> puts the built-in module
  under the key \<^verbatim>\<open>__builtins__\<close> into a globals dictionary that lacks it; that is how the
  built-in names stay reachable from the empty dictionary the builders pass.
\<close>

definition py_eval :: "'f python \<Rightarrow> 'f evaluador" where
  "py_eval py source globales locales =
     (let globales' =
        (if globales (ustr ''__builtins__'') = None
         then globales(ustr ''__builtins__'' \<mapsto> Builtin (ustr ''__builtins__''))
         else globales)
      in case parse py source of
           None \<Rightarrow> Inl SyntaxError
         | Some e \<Rightarrow> evaluar py locales globales' e)"

section \<open>Notions the properties are stated with\<close>

text \<open>The six symbols a row may carry and the six comparison tags.\<close>

definition simbolos :: "pystr set" where
  "simbolos = {[8804], [8805], ustr ''='', ustr ''<'', ustr ''>'', [8800]}"

definition etiquetas :: "pystr list" where
  "etiquetas = [ustr ''<='', ustr ''>='', ustr ''=='', ustr ''<'', ustr ''>'', ustr ''!='']"

text \<open>A row passes the three checks of \<^verbatim>\<open>parse_restricciones\<close>.\<close>

definition fila_valida :: "(pystr \<Rightarrow> 'f option) \<Rightarrow> pystr list \<Rightarrow> 'f entrada restriccion \<Rightarrow> bool" where
  "fila_valida fl pn r \<longleftrightarrow>
     parametro r \<in> set pn \<and> operador r \<in> simbolos \<and> py_float fl (valor r) \<noteq> None"

text \<open>The report for a row that fails a check, by the first check it fails; \<open>n\<close> is the
  number of the row, counted from 1.\<close>

definition error_de_fila :: "pystr list \<Rightarrow> nat \<Rightarrow> 'f entrada restriccion \<Rightarrow> 'f evento" where
  "error_de_fila pn n r =
     (if parametro r \<notin> set pn then Error_parametro n (parametro r)
      else if operador r \<notin> simbolos then Error_operador n (operador r)
      else Error_valor n (valor r))"

text \<open>A normalized row \<open>s\<close> is the input row \<open>r\<close> with its operator canonicalized and its
  value coerced.\<close>

definition normaliza :: "(pystr \<Rightarrow> 'f option) \<Rightarrow> 'f entrada restriccion \<Rightarrow> 'f restriccion \<Rightarrow> bool" where
  "normaliza fl r s \<longleftrightarrow>
     parametro s = parametro r \<and> map_of operadores_validos (operador r) = Some (operador s) \<and>
     py_float fl (valor r) = Some (valor s)"

text \<open>The row the loop appends for an input row that passes the checks.\<close>

definition salida_de :: "(pystr \<Rightarrow> 'f option) \<Rightarrow> 'f entrada restriccion \<Rightarrow> 'f restriccion" where
  "salida_de fl r = \<lparr>operador = the (map_of operadores_validos (operador r)),
      valor = the (py_float fl (valor r)), parametro = parametro r\<rparr>"

text \<open>The test of \<^verbatim>\<open>validar_parametros\<close> for one parameter: its keys are exactly the
  elements.\<close>

definition cubre :: "('f, 'z) LP_scheme \<Rightarrow> pystr \<Rightarrow> bool" where
  "cubre self p \<longleftrightarrow>
     set (map fst (case map_of (parametros self) p of None \<Rightarrow> [] | Some t \<Rightarrow> t)) = set (elementos self)"



definition valores :: "'f evento list \<Rightarrow> (pystr \<times> 'f) list" where
  "valores t = concat (map (\<lambda>ev. case ev of Valor_variable v x \<Rightarrow> [(v, x)] | _ \<Rightarrow> []) t)"

text \<open>
  The report of the first expression that fails to evaluate, the objective first and then
  the constraints in order; \<open>None\<close> when all of them evaluate.
\<close>

definition primera_falla ::
  "'f evaluador \<Rightarrow> 'f ambito \<Rightarrow> ('f, 'z) objeto_expr_scheme \<Rightarrow> 'f evento option" where
  "primera_falla ev vars self =
     (case ev (funcion_objetivo self) Map.empty vars of
        Inl e \<Rightarrow> Some (Error_objetivo e)
      | Inr v \<Rightarrow>
          (case find (\<lambda>r. isl (ev (expresion r) Map.empty vars)) (restricciones self) of
             None \<Rightarrow> None
           | Some r \<Rightarrow> Some (Error_restriccion (projl (ev (expresion r) Map.empty vars)))))"

text \<open>The objective values a run wrote.\<close>

definition objetivos :: "'f evento list \<Rightarrow> 'f list" where
  "objetivos t = concat (map (\<lambda>ev. case ev of Valor_objetivo x \<Rightarrow> [x] | _ \<Rightarrow> []) t)"

text \<open>
  The two outcomes of the report \<open>t\<close> on a backend result \<open>r\<close>: on status \<^verbatim>\<open>ok\<close> with
  termination \<^verbatim>\<open>optimal\<close> the success notice, the objective value and the value of each
  of \<open>nombres\<close>; in every other case the failure notice and no value at all.
\<close>

definition es_informe :: "'f evento list \<Rightarrow> pystr list \<Rightarrow> ('f, 'z) resultado_scheme \<Rightarrow> bool" where
  "es_informe t nombres r \<longleftrightarrow>
     (if status r = ustr ''ok'' \<and> termination_condition r = ustr ''optimal''
      then Exito \<in> set t \<and> Error_sin_optimo \<notin> set t \<and> objetivos t = [valor_objetivo r] \<and>
           valores t = map (\<lambda>v. (v, valor_de r v)) nombres
      else Error_sin_optimo \<in> set t \<and> Exito \<notin> set t \<and> objetivos t = [] \<and> valores t = [])"

section \<open>Example inputs\<close>

text \<open>A float parser that reads two texts, and five rows: one valid, one with an unknown
  parameter, one with an unknown operator, one with a value that is no number, one valid.\<close>

definition fl_ejemplo :: "pystr \<Rightarrow> real option" where
  "fl_ejemplo s = (if s = ustr ''48'' then Some 48 else if s = ustr ''2.5'' then Some 2.5 else None)"

definition filas_ejemplo :: "real entrada restriccion list" where
  "filas_ejemplo =
     [\<lparr>operador = [8804], valor = Texto (ustr ''48''), parametro = ustr ''L''\<rparr>,
      \<lparr>operador = [8804], valor = Numero 20, parametro = ustr ''Z''\<rparr>,
      \<lparr>operador = ustr ''=<'', valor = Numero 20, parametro = ustr ''F''\<rparr>,
      \<lparr>operador = [8805], valor = Texto (ustr ''ocho''), parametro = ustr ''F''\<rparr>,
      \<lparr>operador = ustr ''='', valor = Numero 8, parametro = ustr ''F''\<rparr>]"

text \<open>A backend that always answers optimal, and an LP object whose parameter \<^verbatim>\<open>L\<close> is
  filled in while \<^verbatim>\<open>F\<close> and \<^verbatim>\<open>P\<close> have no values.\<close>

definition solve_ejemplo :: "pystr \<Rightarrow> (real, 'e) modelo \<Rightarrow> real resultado" where
  "solve_ejemplo nombre model =
     \<lparr>status = ustr ''ok'', termination_condition = ustr ''optimal'', valor_objetivo = 0,
      valor_de = (\<lambda>v. 0)\<rparr>"

definition lp_sin_valores :: "real LP" where
  "lp_sin_valores =
     \<lparr>tipo_objetivo = Maximize, restricciones = [], elementos = [ustr ''Desk''],
      parametros = [(ustr ''L'', [(ustr ''Desk'', 8)])], param_objetivo = ustr ''P''\<rparr>"



definition lp_muebles :: "real LP" where
  "lp_muebles =
     \<lparr>tipo_objetivo = Maximize,
      restricciones =
        [\<lparr>operador = ustr ''<='', valor = 48, parametro = ustr ''L''\<rparr>,
         \<lparr>operador = ustr ''<='', valor = 20, parametro = ustr ''F''\<rparr>,
         \<lparr>operador = ustr ''<='', valor = 8, parametro = ustr ''C''\<rparr>],
      elementos = [ustr ''Desk'', ustr ''Table'', ustr ''Chairs''],
      parametros =
        [(ustr ''L'', [(ustr ''Desk'', 8), (ustr ''Table'', 6), (ustr ''Chairs'', 1)]),
         (ustr ''F'', [(ustr ''Desk'', 4), (ustr ''Table'', 2), (ustr ''Chairs'', 1.5)]),
         (ustr ''C'', [(ustr ''Desk'', 2), (ustr ''Table'', 1.5), (ustr ''Chairs'', 0.5)]),
         (ustr ''P'', [(ustr ''Desk'', 60), (ustr ''Table'', 30), (ustr ''Chairs'', 20)])],
      param_objetivo = ustr ''P''\<rparr>"

text \<open>
  An interpreter that parses the three texts \<^verbatim>\<open>abs(x)\<close>, \<^verbatim>\<open>x + 2*y\<close> and \<^verbatim>\<open>z\<close>, has the
  built-in \<^verbatim>\<open>abs\<close>, and applies it to one argument.
\<close>

definition python_ejemplo :: "real python" where
  "python_ejemplo =
     \<lparr>parse = (\<lambda>s.
        if s = ustr ''abs(x)'' then Some (Call (Name (ustr ''abs'')) [Name (ustr ''x'')])
        else if s = ustr ''x + 2*y'' then
          Some (BinOp (Name (ustr ''x'')) (ustr ''+'') (BinOp (Constant 2) (ustr ''*'') (Name (ustr ''y''))))
        else if s = ustr ''z'' then Some (Name (ustr ''z''))
        else None),
      builtins = [ustr ''abs'' \<mapsto> Builtin (ustr ''abs'')],
      llamar = (\<lambda>n vs.
        if n = ustr ''abs'' \<and> length vs = 1 \<and> \<not> list_ex es_funcion vs
        then Inr (Aplicacion n vs) else Inl TypeError)\<rparr>"

definition nlp_abs :: "real NLP" where
  "nlp_abs =
     \<lparr>tipo_objetivo = Minimize, restricciones = [], funcion_objetivo = ustr ''abs(x)'',
      variables = [ustr ''x'']\<rparr>"

definition nlp_z :: "real NLP" where
  "nlp_z =
     \<lparr>tipo_objetivo = Minimize, restricciones = [], funcion_objetivo = ustr ''z'',
      variables = [ustr ''x'']\<rparr>"


definition milp_xy :: "real MILP" where
  "milp_xy =
     \<lparr>tipo_objetivo = Minimize,
      restricciones = [\<lparr>operador = ustr ''<='', valor = 10, expresion = ustr ''x + 2*y''\<rparr>],
      funcion_objetivo = ustr ''x + 2*y'',
      variables_enteras = [ustr ''x''], variables_continuas = [ustr ''y'']\<rparr>"

definition milp_xx :: "real MILP" where
  "milp_xx =
     \<lparr>tipo_objetivo = Minimize, restricciones = [], funcion_objetivo = ustr ''x + 2*y'',
      variables_enteras = [ustr ''x''], variables_continuas = [ustr ''x'', ustr ''y'']\<rparr>"

text \<open>A backend that finds the program infeasible.\<close>

definition solve_infactible :: "pystr \<Rightarrow> (real, 'e) modelo \<Rightarrow> real resultado" where
  "solve_infactible nombre model =
     \<lparr>status = ustr ''warning'', termination_condition = ustr ''infeasible'', valor_objetivo = 0,
      valor_de = (\<lambda>v. 0)\<rparr>"

section \<open>Properties of the identifier list parser\<close>

lemma split_not_Nil: "split sep s \<noteq> []"
  by (induction s) (auto split: list.splits)

lemma length_split: "length (split sep s) = Suc (count_list s sep)"
proof (induction s)
  case Nil
  show ?case by simp
next
  case (Cons c cs)
  then show ?case
    using split_not_Nil [of sep cs] by (auto split: list.splits)
qed

lemma split_no_sep: "seg \<in> set (split sep s) \<Longrightarrow> sep \<notin> set seg"
proof (induction s arbitrary: seg)
  case Nil
  then show ?case by simp
next
  case (Cons c cs)
  show ?case
  proof (cases "c = sep")
    case True
    with Cons show ?thesis by auto
  next
    case False
    obtain y ys where ys: "split sep cs = y # ys"
      using split_not_Nil [of sep cs] by (cases "split sep cs") auto
    with False Cons.prems have "seg = c # y \<or> seg \<in> set ys" by auto
    then show ?thesis
    proof
      assume "seg = c # y"
      moreover have "sep \<notin> set y" using Cons.IH [of y] ys by simp
      ultimately show ?thesis using False by auto
    next
      assume "seg \<in> set ys"
      then show ?thesis using Cons.IH [of seg] ys by simp
    qed
  qed
qed

lemma strip_decompose:
  "\<exists>pre suf. s = pre @ strip s @ suf \<and> (\<forall>c \<in> set pre. isspace c) \<and> (\<forall>c \<in> set suf. isspace c)"
proof -
  define ys where "ys = dropWhile isspace s"
  have a: "s = takeWhile isspace s @ ys"
    by (simp add: ys_def)
  have "rev (dropWhile isspace (rev ys)) @ rev (takeWhile isspace (rev ys)) =
        rev (takeWhile isspace (rev ys) @ dropWhile isspace (rev ys))"
    by (simp only: rev_append)
  also have "\<dots> = ys"
    by simp
  finally have b: "ys = strip s @ rev (takeWhile isspace (rev ys))"
    by (simp add: strip_def ys_def)
  have c: "\<forall>c \<in> set (takeWhile isspace s). isspace c"
    by (auto dest: set_takeWhileD)
  have d: "\<forall>c \<in> set (rev (takeWhile isspace (rev ys))). isspace c"
    by (auto dest: set_takeWhileD)
  have "s = takeWhile isspace s @ strip s @ rev (takeWhile isspace (rev ys))"
    using a b by simp
  with c d show ?thesis by blast
qed

lemma strip_Nil_iff: "strip s = [] \<longleftrightarrow> (\<forall>c \<in> set s. isspace c)"
proof
  assume "strip s = []"
  then show "\<forall>c \<in> set s. isspace c"
    using strip_decompose [of s] by auto
next
  assume "\<forall>c \<in> set s. isspace c"
  then show "strip s = []" by (auto simp: strip_def dest: set_dropWhileD)
qed

lemma strip_last: "strip s \<noteq> [] \<Longrightarrow> \<not> isspace (last (strip s))"
proof -
  assume ne: "strip s \<noteq> []"
  define zs where "zs = dropWhile isspace (rev (dropWhile isspace s))"
  have "zs \<noteq> []" using ne by (simp add: strip_def zs_def)
  then have "\<not> isspace (hd zs)" unfolding zs_def by (rule hd_dropWhile)
  moreover have "last (strip s) = hd zs"
    using \<open>zs \<noteq> []\<close> by (simp add: strip_def zs_def last_rev)
  ultimately show ?thesis by simp
qed

lemma strip_hd: "strip s \<noteq> [] \<Longrightarrow> \<not> isspace (hd (strip s))"
proof -
  assume ne: "strip s \<noteq> []"
  define ys where "ys = dropWhile isspace s"
  define k where "k = length (takeWhile isspace (rev ys))"
  have "strip s = rev (drop k (rev ys))"
    by (simp add: strip_def ys_def k_def dropWhile_eq_drop)
  then have st: "strip s = take (length ys - k) ys"
    by (simp add: rev_drop)
  with ne have pos: "0 < length ys - k" and nz: "ys \<noteq> []" by auto
  from nz have "\<not> isspace (hd ys)" unfolding ys_def by (rule hd_dropWhile)
  moreover have "hd (strip s) = hd ys"
    using st pos by (simp add: hd_take)
  ultimately show ?thesis by simp
qed

lemma replace_no_space: "32 \<notin> set (replace 32 95 s)"
  by (auto simp: replace_def)

lemma replace_ends:
  assumes "s \<noteq> []" "\<not> isspace (hd s)" "\<not> isspace (last s)"
  shows "replace 32 95 s \<noteq> [] \<and> \<not> isspace (hd (replace 32 95 s)) \<and>
         \<not> isspace (last (replace 32 95 s))"
proof -
  have sp: "isspace 32" by (simp add: isspace_def)
  from assms sp have "hd s \<noteq> 32" "last s \<noteq> 32" by auto
  with assms show ?thesis by (simp add: replace_def hd_map last_map)
qed

text \<open>
  C7 (amended). For every input text the parser returns, in order, the comma-separated
  segments that hold a non-whitespace character, each with its leading and trailing
  whitespace trimmed and every space character U+0020 that remains replaced by an
  underscore. No emitted identifier is empty, none contains a space character, none
  begins or ends with whitespace, and there are at most as many identifiers as
  comma-separated segments (one more than the commas of the text).
\<close>

theorem parse_lista_identifiers:
  "parse_lista texto =
     map (\<lambda>seg. replace 32 95 (strip seg))
       (filter (\<lambda>seg. \<exists>c \<in> set seg. \<not> isspace c) (split 44 texto))
   \<and> (\<forall>seg \<in> set (split 44 texto). 44 \<notin> set seg \<and>
        (\<exists>pre suf. seg = pre @ strip seg @ suf \<and>
           (\<forall>c \<in> set pre. isspace c) \<and> (\<forall>c \<in> set suf. isspace c)))
   \<and> (\<forall>ident \<in> set (parse_lista texto).
        ident \<noteq> [] \<and> 32 \<notin> set ident \<and> \<not> isspace (hd ident) \<and> \<not> isspace (last ident))
   \<and> length (split 44 texto) = Suc (count_list texto 44)
   \<and> length (parse_lista texto) \<le> length (split 44 texto)"
proof (intro conjI)
  have "(\<lambda>item. strip item \<noteq> []) = (\<lambda>seg. \<exists>c \<in> set seg. \<not> isspace c)"
    by (auto simp: strip_Nil_iff)
  then show "parse_lista texto =
     map (\<lambda>seg. replace 32 95 (strip seg))
       (filter (\<lambda>seg. \<exists>c \<in> set seg. \<not> isspace c) (split 44 texto))"
    by (simp add: parse_lista_def)
next
  show "\<forall>seg \<in> set (split 44 texto). 44 \<notin> set seg \<and>
        (\<exists>pre suf. seg = pre @ strip seg @ suf \<and>
           (\<forall>c \<in> set pre. isspace c) \<and> (\<forall>c \<in> set suf. isspace c))"
    using split_no_sep strip_decompose by blast
next
  show "\<forall>ident \<in> set (parse_lista texto).
        ident \<noteq> [] \<and> 32 \<notin> set ident \<and> \<not> isspace (hd ident) \<and> \<not> isspace (last ident)"
  proof
    fix ident
    assume "ident \<in> set (parse_lista texto)"
    then obtain item where ne: "strip item \<noteq> []" and id: "ident = replace 32 95 (strip item)"
      by (auto simp: parse_lista_def)
    from ne have "\<not> isspace (hd (strip item))" "\<not> isspace (last (strip item))"
      by (simp_all add: strip_hd strip_last)
    with ne id show "ident \<noteq> [] \<and> 32 \<notin> set ident \<and> \<not> isspace (hd ident) \<and> \<not> isspace (last ident)"
      using replace_ends [of "strip item"] replace_no_space [of "strip item"] by simp
  qed
next
  show "length (split 44 texto) = Suc (count_list texto 44)"
    by (rule length_split)
next
  show "length (parse_lista texto) \<le> length (split 44 texto)"
    by (simp add: parse_lista_def)
qed

text \<open>The default element text of the linear-programming form, \<^verbatim>\<open>"Desk, Table, Chairs"\<close>.\<close>

theorem parse_lista_identifiers_witness:
  "parse_lista (ustr ''Desk, Table, Chairs'') = [ustr ''Desk'', ustr ''Table'', ustr ''Chairs'']
   \<and> list_all (\<lambda>ident. ident \<noteq> [] \<and> 32 \<notin> set ident) (parse_lista (ustr ''Desk, Table, Chairs''))
   \<and> length (parse_lista (ustr ''Desk, Table, Chairs'')) \<le> Suc (count_list (ustr ''Desk, Table, Chairs'') 44)"
proof -
  have ev: "parse_lista (ustr ''Desk, Table, Chairs'') = [ustr ''Desk'', ustr ''Table'', ustr ''Chairs'']"
    by (simp add: parse_lista_def ustr_def strip_def isspace_def replace_def)
  from parse_lista_identifiers [of "ustr ''Desk, Table, Chairs''"]
  have "list_all (\<lambda>ident. ident \<noteq> [] \<and> 32 \<notin> set ident) (parse_lista (ustr ''Desk, Table, Chairs''))
    \<and> length (parse_lista (ustr ''Desk, Table, Chairs'')) \<le> Suc (count_list (ustr ''Desk, Table, Chairs'') 44)"
    unfolding list_all_iff by auto
  with ev show ?thesis by blast
qed

text \<open>
  As the specification words it, C7 fails for whitespace other than the space character: in
  \<^verbatim>\<open>"a\tb"\<close> the tab (U+0009) is interior whitespace, and the parser emits it unchanged.
\<close>

theorem parse_lista_tab_counterexample:
  "parse_lista [97, 9, 98] = [[97, 9, 98]] \<and> isspace 9"
  by (simp add: parse_lista_def strip_def isspace_def replace_def)

section \<open>Properties of the constraint normalizer\<close>

lemma canonico_None_iff: "map_of operadores_validos s = None \<longleftrightarrow> s \<notin> simbolos"
  by (simp add: operadores_validos_def simbolos_def ustr_def)


lemma parse_filas_general:
  "parse_filas fl pn idx filas (rs, avisos) =
     (rs @ map (salida_de fl) (filter (fila_valida fl pn) filas),
      avisos @ map (\<lambda>(i, r). error_de_fila pn (Suc i) r)
              (filter (\<lambda>(i, r). \<not> fila_valida fl pn r) (enumerate idx filas)))"
proof (induction filas arbitrary: idx rs avisos)
  case Nil
  show ?case by simp
next
  case (Cons r filas)
  show ?case
  proof (cases "parametro r \<in> set pn")
    case False
    then show ?thesis
      by (simp add: Cons.IH fila_valida_def error_de_fila_def)
  next
    case True
    show ?thesis
    proof (cases "map_of operadores_validos (operador r)")
      case None
      with True show ?thesis
        using canonico_None_iff [of "operador r"]
        by (simp add: Cons.IH fila_valida_def error_de_fila_def)
    next
      case (Some t)
      then have sim: "operador r \<in> simbolos"
        using canonico_None_iff [of "operador r"] by auto
      show ?thesis
      proof (cases "py_float fl (valor r)")
        case None
        with True Some sim show ?thesis
          by (simp add: Cons.IH fila_valida_def error_de_fila_def)
      next
        case (Some v)
        with True \<open>map_of operadores_validos (operador r) = Some t\<close> sim show ?thesis
          by (simp add: Cons.IH fila_valida_def salida_de_def)
      qed
    qed
  qed
qed

lemma normaliza_salida_de: "fila_valida fl pn r \<Longrightarrow> normaliza fl r (salida_de fl r)"
  using canonico_None_iff [of "operador r"]
  by (auto simp: fila_valida_def normaliza_def salida_de_def)

lemma parse_restricciones_salida:
  "list_all2 (normaliza fl) (filter (fila_valida fl pn) filas) (fst (parse_restricciones fl filas pn))"
  unfolding parse_restricciones_def parse_filas_general
  by (auto simp: list_all2_map2 normaliza_salida_de intro!: list.rel_refl_strong)

lemma parse_restricciones_errores:
  "snd (parse_restricciones fl filas pn) =
     map (\<lambda>(i, r). error_de_fila pn (Suc i) r)
       (filter (\<lambda>(i, r). \<not> fila_valida fl pn r) (enumerate 0 filas))"
  unfolding parse_restricciones_def parse_filas_general by simp

text \<open>
  C4. For every list of linear-mode input rows, the rows the normalizer emits are exactly
  the rows that pass the three checks (known parameter, one of the six operator symbols,
  value coercible to float), in their input order, each with its operator canonicalized
  and its value coerced; and the errors it reports are one per failing row, in input
  order, each with the 1-based number of its row and the first check the row fails. A
  failing row therefore never stops the rows after it.
\<close>

theorem parse_restricciones_skip_and_continue:
  "list_all2 (normaliza fl) (filter (fila_valida fl pn) filas) (fst (parse_restricciones fl filas pn))
   \<and> snd (parse_restricciones fl filas pn) =
       map (\<lambda>(i, r). error_de_fila pn (Suc i) r)
         (filter (\<lambda>(i, r). \<not> fila_valida fl pn r) (enumerate 0 filas))"
  using parse_restricciones_salida parse_restricciones_errores by blast

text \<open>Five rows, three of them failing one check each: rows 1 and 5 are emitted, rows 2, 3
  and 4 are reported.\<close>

theorem parse_restricciones_skip_and_continue_witness:
  "list_all2 (normaliza fl_ejemplo)
     [\<lparr>operador = [8804], valor = Texto (ustr ''48''), parametro = ustr ''L''\<rparr>,
      \<lparr>operador = ustr ''='', valor = Numero 8, parametro = ustr ''F''\<rparr>]
     (fst (parse_restricciones fl_ejemplo filas_ejemplo [ustr ''L'', ustr ''F'']))
   \<and> fst (parse_restricciones fl_ejemplo filas_ejemplo [ustr ''L'', ustr ''F'']) =
     [\<lparr>operador = ustr ''<='', valor = 48, parametro = ustr ''L''\<rparr>,
      \<lparr>operador = ustr ''=='', valor = 8, parametro = ustr ''F''\<rparr>]
   \<and> snd (parse_restricciones fl_ejemplo filas_ejemplo [ustr ''L'', ustr ''F'']) =
     [Error_parametro 2 (ustr ''Z''), Error_operador 3 (ustr ''=<''),
      Error_valor 4 (Texto (ustr ''ocho''))]"
proof -
  have v: "filter (fila_valida fl_ejemplo [ustr ''L'', ustr ''F'']) filas_ejemplo =
     [\<lparr>operador = [8804], valor = Texto (ustr ''48''), parametro = ustr ''L''\<rparr>,
      \<lparr>operador = ustr ''='', valor = Numero 8, parametro = ustr ''F''\<rparr>]"
    by (simp add: fila_valida_def filas_ejemplo_def fl_ejemplo_def py_float_def simbolos_def ustr_def)
  have e: "parse_restricciones fl_ejemplo filas_ejemplo [ustr ''L'', ustr ''F''] =
     ([\<lparr>operador = ustr ''<='', valor = 48, parametro = ustr ''L''\<rparr>,
       \<lparr>operador = ustr ''=='', valor = 8, parametro = ustr ''F''\<rparr>],
      [Error_parametro 2 (ustr ''Z''), Error_operador 3 (ustr ''=<''),
       Error_valor 4 (Texto (ustr ''ocho''))])"
    by (simp add: parse_restricciones_def filas_ejemplo_def fl_ejemplo_def py_float_def
        operadores_validos_def ustr_def)
  from parse_restricciones_skip_and_continue [of fl_ejemplo "[ustr ''L'', ustr ''F'']" filas_ejemplo]
  have "list_all2 (normaliza fl_ejemplo)
     (filter (fila_valida fl_ejemplo [ustr ''L'', ustr ''F'']) filas_ejemplo)
     (fst (parse_restricciones fl_ejemplo filas_ejemplo [ustr ''L'', ustr ''F'']))"
    by blast
  with v e show ?thesis by simp
qed

lemma canonico_valores:
  "map_of operadores_validos [8804] = Some (ustr ''<='')"
  "map_of operadores_validos [8805] = Some (ustr ''>='')"
  "map_of operadores_validos (ustr ''='') = Some (ustr ''=='')"
  "map_of operadores_validos (ustr ''<'') = Some (ustr ''<'')"
  "map_of operadores_validos (ustr ''>'') = Some (ustr ''>'')"
  "map_of operadores_validos [8800] = Some (ustr ''!='')"
  by (simp_all add: operadores_validos_def ustr_def)

lemma canonico_bij:
  "bij_betw (\<lambda>s. the (map_of operadores_validos s)) simbolos (set etiquetas)"
  unfolding bij_betw_def
proof
  show "inj_on (\<lambda>s. the (map_of operadores_validos s)) simbolos"
    by (simp add: simbolos_def operadores_validos_def ustr_def)
  show "(\<lambda>s. the (map_of operadores_validos s)) ` simbolos = set etiquetas"
    by (simp add: simbolos_def etiquetas_def operadores_validos_def ustr_def insert_commute)
qed

lemma error_operador_reportado:
  assumes "i < length filas" "parametro (filas ! i) \<in> set pn" "operador (filas ! i) \<notin> simbolos"
  shows "Error_operador (Suc i) (operador (filas ! i)) \<in> set (snd (parse_restricciones fl filas pn))"
proof -
  have "(i, filas ! i) \<in> set (enumerate 0 filas)"
    using assms(1) by (simp add: in_set_enumerate_eq)
  moreover have "\<not> fila_valida fl pn (filas ! i)"
    using assms(3) by (simp add: fila_valida_def)
  moreover have "error_de_fila pn (Suc i) (filas ! i) = Error_operador (Suc i) (operador (filas ! i))"
    using assms by (simp add: error_de_fila_def)
  ultimately show ?thesis
    unfolding parse_restricciones_errores by force
qed

text \<open>
  C3. Canonicalization maps U+2264 to \<^verbatim>\<open><=\<close>, U+2265 to \<^verbatim>\<open>>=\<close>, \<^verbatim>\<open>=\<close> to \<^verbatim>\<open>==\<close>, \<^verbatim>\<open><\<close> to
  \<^verbatim>\<open><\<close>, \<^verbatim>\<open>>\<close> to \<^verbatim>\<open>>\<close> and U+2260 to \<^verbatim>\<open>!=\<close>; it is a bijection from the six symbols onto
  the six tags; every other symbol has no canonical tag, and a row that reaches the
  operator check (its parameter is known) with such a symbol is reported as an operator
  error with the 1-based number of the row.
\<close>

theorem operadores_validos_bijection:
  "map_of operadores_validos [8804] = Some (ustr ''<='')
   \<and> map_of operadores_validos [8805] = Some (ustr ''>='')
   \<and> map_of operadores_validos (ustr ''='') = Some (ustr ''=='')
   \<and> map_of operadores_validos (ustr ''<'') = Some (ustr ''<'')
   \<and> map_of operadores_validos (ustr ''>'') = Some (ustr ''>'')
   \<and> map_of operadores_validos [8800] = Some (ustr ''!='')
   \<and> bij_betw (\<lambda>s. the (map_of operadores_validos s)) simbolos (set etiquetas)
   \<and> card simbolos = 6 \<and> distinct etiquetas \<and> length etiquetas = 6
   \<and> (s \<notin> simbolos \<longrightarrow> map_of operadores_validos s = None)
   \<and> (i < length filas \<and> parametro (filas ! i) \<in> set pn \<and> operador (filas ! i) \<notin> simbolos \<longrightarrow>
        Error_operador (Suc i) (operador (filas ! i)) \<in> set (snd (parse_restricciones fl filas pn)))"
proof -
  have c: "card simbolos = 6"
    by (simp add: simbolos_def ustr_def)
  have d: "distinct etiquetas \<and> length etiquetas = 6"
    by (simp add: etiquetas_def ustr_def)
  show ?thesis
    using canonico_valores canonico_bij c d canonico_None_iff [of s]
      error_operador_reportado [of i filas pn fl]
    by blast
qed

text \<open>The symbol \<^verbatim>\<open>=<\<close> in the third of the example rows.\<close>

theorem operadores_validos_bijection_witness:
  "map_of operadores_validos (ustr ''=<'') = None
   \<and> Error_operador 3 (ustr ''=<'')
       \<in> set (snd (parse_restricciones fl_ejemplo filas_ejemplo [ustr ''L'', ustr ''F'']))"
proof -
  have a: "(2::nat) < length filas_ejemplo" by (simp add: filas_ejemplo_def)
  have b: "parametro (filas_ejemplo ! 2) \<in> set [ustr ''L'', ustr ''F'']"
    by (simp add: filas_ejemplo_def ustr_def)
  have c: "operador (filas_ejemplo ! 2) \<notin> simbolos"
    by (simp add: filas_ejemplo_def simbolos_def ustr_def)
  have d: "operador (filas_ejemplo ! 2) = ustr ''=<''"
    by (simp add: filas_ejemplo_def)
  have e: "ustr ''=<'' \<notin> simbolos"
    by (simp add: simbolos_def ustr_def)
  from operadores_validos_bijection [of "ustr ''=<''" 2 filas_ejemplo "[ustr ''L'', ustr ''F'']" fl_ejemplo]
    a b c d e
  show ?thesis by auto
qed

section \<open>Properties of the parameter validator\<close>

lemma validar_parametros_find:
  "validar_parametros self pn =
     (case find (\<lambda>p. \<not> cubre self p) pn of
        None \<Rightarrow> (True, [])
      | Some q \<Rightarrow> (False, [Error_cobertura q]))"
  by (induction pn) (auto simp: cubre_def Let_def)

lemma interfaz_resolver_find:
  "interfaz_resolver solve dm self pn =
     (case find (\<lambda>p. \<not> cubre self p) pn of
        None \<Rightarrow> construir_modelo_lineal solve dm self
      | Some q \<Rightarrow> Inr [Error_cobertura q])"
  by (auto simp: interfaz_resolver_def validar_parametros_find split: option.splits sum.splits)

lemma find_first:
  "find P xs = Some q \<Longrightarrow> \<exists>pre post. xs = pre @ q # post \<and> (\<forall>x \<in> set pre. \<not> P x) \<and> P q"
proof (induction xs)
  case Nil
  then show ?case by simp
next
  case (Cons x xs)
  show ?case
  proof (cases "P x")
    case True
    with Cons.prems have "x = q" by simp
    with True have "x # xs = [] @ q # xs \<and> (\<forall>x \<in> set []. \<not> P x) \<and> P q" by simp
    then show ?thesis by blast
  next
    case False
    with Cons obtain pre post where "xs = pre @ q # post" "\<forall>x \<in> set pre. \<not> P x" "P q"
      by auto
    with False have "x # xs = (x # pre) @ q # post \<and> (\<forall>y \<in> set (x # pre). \<not> P y) \<and> P q"
      by simp
    then show ?thesis by blast
  qed
qed

text \<open>
  C2 (amended). If some declared parameter does not have values for exactly the declared
  elements, then the validator reports a coverage violation for the first such parameter
  in the order of declaration, and for that one only; the model is not built and the
  backend is not called: the report is all that the run produces.
\<close>

theorem cobertura_bloquea_modelo:
  assumes "p \<in> set pn" "\<not> cubre self p"
  shows "\<exists>pre q post. pn = pre @ q # post \<and> (\<forall>x \<in> set pre. cubre self x) \<and> \<not> cubre self q \<and>
           validar_parametros self pn = (False, [Error_cobertura q]) \<and>
           interfaz_resolver solve dm self pn = Inr [Error_cobertura q]"
proof -
  from assms have "find (\<lambda>p. \<not> cubre self p) pn \<noteq> None"
    by (auto simp: find_None_iff)
  then obtain q where q: "find (\<lambda>p. \<not> cubre self p) pn = Some q" by auto
  from find_first [OF q] obtain pre post where
    "pn = pre @ q # post" "\<forall>x \<in> set pre. cubre self x" "\<not> cubre self q" by auto
  moreover have "validar_parametros self pn = (False, [Error_cobertura q])"
    by (simp add: validar_parametros_find q)
  moreover have "interfaz_resolver solve dm self pn = Inr [Error_cobertura q]"
    by (simp add: interfaz_resolver_find q)
  ultimately show ?thesis by blast
qed

text \<open>Parameters \<^verbatim>\<open>L, F, P\<close> with only \<^verbatim>\<open>L\<close> filled in: the run reports \<^verbatim>\<open>F\<close>.\<close>

theorem cobertura_bloquea_modelo_witness:
  "interfaz_resolver solve_ejemplo NonNegativeReals lp_sin_valores [ustr ''L'', ustr ''F'', ustr ''P'']
     = Inr [Error_cobertura (ustr ''F'')]"
proof -
  have a: "ustr ''F'' \<in> set [ustr ''L'', ustr ''F'', ustr ''P'']" by simp
  have b: "\<not> cubre lp_sin_valores (ustr ''F'')"
    by (simp add: cubre_def lp_sin_valores_def ustr_def)
  have c: "validar_parametros lp_sin_valores [ustr ''L'', ustr ''F'', ustr ''P''] =
      (False, [Error_cobertura (ustr ''F'')])"
    by (simp add: lp_sin_valores_def ustr_def)
  from cobertura_bloquea_modelo [OF a b, of solve_ejemplo NonNegativeReals] c
  show ?thesis by auto
qed

text \<open>
  As the specification words it, C2 asks for a report for each parameter that lacks values. Here
  \<^verbatim>\<open>F\<close> and \<^verbatim>\<open>P\<close> both lack them, and the run reports \<^verbatim>\<open>F\<close> alone.
\<close>

theorem cobertura_solo_primero_counterexample:
  "\<not> cubre lp_sin_valores (ustr ''F'') \<and> \<not> cubre lp_sin_valores (ustr ''P'')
   \<and> interfaz_resolver solve_ejemplo NonNegativeReals lp_sin_valores [ustr ''L'', ustr ''F'', ustr ''P'']
     = Inr [Error_cobertura (ustr ''F'')]"
  by (simp add: cubre_def lp_sin_valores_def ustr_def interfaz_resolver_def)

section \<open>Properties of the linear model builder\<close>

lemma set_pyomo_Set: "set (pyomo_Set xs) = set xs"
  by (simp add: pyomo_Set_def)

lemma distinct_pyomo_Set: "distinct (pyomo_Set xs)"
  by (simp add: pyomo_Set_def)










lemma armar_modelo_lineal_Inr:
  assumes "armar_modelo_lineal dm self = Inr m"
  shows "m_i m = pyomo_Set (elementos self)"
    and "m_vars m = map (\<lambda>e. (e, dm)) (pyomo_Set (elementos self))"
    and "agregar_lineales (parametros self) (pyomo_Set (elementos self)) (restricciones self) []
           = Inr (m_restricciones m)"
  using assms
  by (auto simp: armar_modelo_lineal_def Let_def split: sum.splits)






section \<open>Properties of the expression evaluator\<close>

text \<open>
  C1, evaluated at the failing input. The objective \<^verbatim>\<open>abs(x)\<close> over the single declared
  variable \<^verbatim>\<open>x\<close>: the name \<^verbatim>\<open>abs\<close> is no key of the binding, yet the evaluation succeeds
  with the built-in function, no error is reported and the solver is called. The
  unbound name \<^verbatim>\<open>z\<close>, which is no built-in either, fails as the specification says.
\<close>

theorem eval_resuelve_integradas:
  "ustr ''abs'' \<notin> set (variables nlp_abs)
   \<and> py_eval python_ejemplo (funcion_objetivo nlp_abs) Map.empty (enlace (variables nlp_abs))
       = Inr (Aplicacion (ustr ''abs'') [Var (ustr ''x'')])
   \<and> NLP_construir_modelo (py_eval python_ejemplo) solve_ejemplo nlp_abs
       = [Llamada_solver (ustr ''ipopt''), Exito, Valor_objetivo 0, Valor_variable (ustr ''x'') 0]
   \<and> NLP_construir_modelo (py_eval python_ejemplo) solve_ejemplo nlp_z
       = [Error_objetivo (NameError (ustr ''z''))]"
  by (simp add: nlp_abs_def nlp_z_def python_ejemplo_def py_eval_def enlace_def buscar_def
      NLP_construir_modelo_def NLP_modelo_def armar_modelo_expr_def solve_ejemplo_def
      interpretar_def es_funcion_def ustr_def)

section \<open>Properties of the expression-mode builder\<close>


lemma agregar_expresiones_find:
  "agregar_expresiones ev vars filas lista =
     (case find (\<lambda>r. isl (ev (expresion r) Map.empty vars)) filas of
        Some r \<Rightarrow> Inl (projl (ev (expresion r) Map.empty vars))
      | None \<Rightarrow> agregar_expresiones ev vars filas lista)
   \<and> (find (\<lambda>r. isl (ev (expresion r) Map.empty vars)) filas = None \<longrightarrow>
        (\<exists>out. agregar_expresiones ev vars filas lista = Inr out))"
proof (induction filas arbitrary: lista)
  case Nil
  show ?case by simp
next
  case (Cons r filas)
  show ?case
  proof (cases "ev (expresion r) Map.empty vars")
    case (Inl e)
    then show ?thesis by simp
  next
    case (Inr w)
    with Cons.IH [of "agregar w (operador r) (valor r) lista"] show ?thesis
      by (simp split: option.splits)
  qed
qed


lemma armar_modelo_expr_ok:
  assumes "primera_falla ev vars self = None"
  shows "\<exists>m. armar_modelo_expr ev declaradas vars self = Inr m \<and> m_vars m = declaradas"
proof -
  from assms obtain v where v: "ev (funcion_objetivo self) Map.empty vars = Inr v"
    by (auto simp: primera_falla_def split: sum.splits)
  with assms have "find (\<lambda>r. isl (ev (expresion r) Map.empty vars)) (restricciones self) = None"
    by (auto simp: primera_falla_def split: option.splits)
  with agregar_expresiones_find [of ev vars "restricciones self" "[]"]
  obtain out where "agregar_expresiones ev vars (restricciones self) [] = Inr out" by blast
  with v show ?thesis by (simp add: armar_modelo_expr_def)
qed


lemma primera_falla_objetivo:
  "ev (funcion_objetivo self) Map.empty vars = Inl e \<Longrightarrow>
   primera_falla ev vars self = Some (Error_objetivo e)"
  by (simp add: primera_falla_def)

lemma primera_falla_restriccion:
  assumes "ev (funcion_objetivo self) Map.empty vars = Inr v"
    and "restricciones self = pre @ r # post"
    and "\<forall>p \<in> set pre. \<not> isl (ev (expresion p) Map.empty vars)"
    and "ev (expresion r) Map.empty vars = Inl e"
  shows "primera_falla ev vars self = Some (Error_restriccion e)"
proof -
  have "find (\<lambda>r. isl (ev (expresion r) Map.empty vars)) (pre @ r # post) = Some r"
    using assms(3,4) by (induction pre) auto
  with assms show ?thesis by (simp add: primera_falla_def)
qed




lemma NLP_construir_ok:
  assumes "primera_falla ev (enlace (variables self)) self = None"
  shows "\<exists>m. NLP_modelo ev self = Inr m \<and> m_vars m = NLP_variables self \<and>
    NLP_construir_modelo ev solve self =
      Llamada_solver (ustr ''ipopt'') # interpretar False (variables self) (solve (ustr ''ipopt'') m)"
  using armar_modelo_expr_ok [OF assms, of "NLP_variables self"]
  by (auto simp: NLP_construir_modelo_def NLP_modelo_def)

lemma MILP_construir_ok:
  assumes "primera_falla ev (enlace (variables_enteras self @ variables_continuas self)) self = None"
  shows "\<exists>m. MILP_modelo ev self = Inr m \<and> m_vars m = MILP_variables self \<and>
    MILP_construir_modelo ev solve self =
      Llamada_solver (ustr ''glpk'') #
      interpretar True (claves (variables_enteras self @ variables_continuas self))
        (solve (ustr ''glpk'') m)"
  using armar_modelo_expr_ok [OF assms, of "MILP_variables self"]
  by (auto simp: MILP_construir_modelo_def MILP_modelo_def)

lemma MINLP_construir_ok:
  assumes "primera_falla ev (enlace (map fst (MINLP_variables self))) self = None"
  shows "\<exists>m. MINLP_modelo ev self = Inr m \<and> m_vars m = MINLP_variables self \<and>
    MINLP_construir_modelo ev solve self =
      Llamada_solver (ustr ''ipopt'') #
      interpretar False (map fst (MINLP_variables self)) (solve (ustr ''ipopt'') m)"
  using armar_modelo_expr_ok [OF assms, of "MINLP_variables self"]
  by (auto simp: MINLP_construir_modelo_def MINLP_modelo_def)


lemmas ejemplo_defs =
  python_ejemplo_def py_eval_def enlace_def buscar_def es_funcion_def operar_def ustr_def


section \<open>Properties of the solver dispatch\<close>


lemma construir_lineal_ok:
  "armar_modelo_lineal dm self = Inr m \<Longrightarrow>
   construir_modelo_lineal solve dm self =
     Inr (Llamada_solver (ustr ''glpk'') # interpretar False (m_i m) (solve (ustr ''glpk'') m))"
  by (simp add: construir_modelo_lineal_def)







lemma muebles_modelo:
  "armar_modelo_lineal dm lp_muebles =
     Inr \<lparr>m_i = [ustr ''Desk'', ustr ''Table'', ustr ''Chairs''],
          m_params = parametros lp_muebles,
          m_vars = [(ustr ''Desk'', dm), (ustr ''Table'', dm), (ustr ''Chairs'', dm)],
          m_objetivo = ([(60, ustr ''Desk''), (30, ustr ''Table''), (20, ustr ''Chairs'')], Maximize),
          m_restricciones =
            [([(8, ustr ''Desk''), (6, ustr ''Table''), (1, ustr ''Chairs'')], Le, 48),
             ([(4, ustr ''Desk''), (2, ustr ''Table''), (1.5, ustr ''Chairs'')], Le, 20),
             ([(2, ustr ''Desk''), (1.5, ustr ''Table''), (0.5, ustr ''Chairs'')], Le, 8)]\<rparr>"
  by (simp add: armar_modelo_lineal_def lp_muebles_def pyomo_Set_def agregar_def rama_def ustr_def)


section \<open>Properties of the result interpreter\<close>

lemma valores_map: "valores (map (\<lambda>v. Valor_variable v (f v)) ns) = map (\<lambda>v. (v, f v)) ns"
  by (induction ns) (simp_all add: valores_def)

lemma objetivos_map: "objetivos (map (\<lambda>v. Valor_variable v (f v)) ns) = []"
  by (induction ns) (simp_all add: objetivos_def)

lemma es_informe_interpretar: "es_informe (interpretar d ns r) ns r"
proof (cases "status r = ustr ''ok'' \<and> termination_condition r = ustr ''optimal''")
  case True
  have "valores (Exito # Valor_objetivo (valor_objetivo r) # map (\<lambda>v. Valor_variable v (valor_de r v)) ns)
      = valores (map (\<lambda>v. Valor_variable v (valor_de r v)) ns)"
    by (simp add: valores_def)
  moreover have "objetivos (Exito # Valor_objetivo (valor_objetivo r) # map (\<lambda>v. Valor_variable v (valor_de r v)) ns)
      = valor_objetivo r # objetivos (map (\<lambda>v. Valor_variable v (valor_de r v)) ns)"
    by (simp add: objetivos_def)
  ultimately show ?thesis
    using True by (auto simp: es_informe_def interpretar_def valores_map objetivos_map)
next
  case False
  then show ?thesis
    by (auto simp: es_informe_def interpretar_def valores_def objetivos_def)
qed

lemma set_claves: "set (claves xs) = set xs"
  by (simp add: claves_def)

lemma map_fst_set_domain: "map fst (set_domain vars v d) = map fst vars"
  by (induction vars) (auto simp: set_domain_def)

lemma map_fst_fold_set_domain:
  "map fst (fold (\<lambda>v vars. set_domain vars v d) xs vars) = map fst vars"
  by (induction xs arbitrary: vars) (simp_all add: map_fst_set_domain)

lemma MINLP_nombres:
  "map fst (MINLP_variables self) = pyomo_Set (variables_enteras self @ variables_continuas self)"
  by (simp add: MINLP_variables_def Let_def map_fst_fold_set_domain comp_def)

text \<open>
  C6. In every class, a run that reaches the backend reports the optimal outcome, with
  the objective value and the value of every element (LP, IP) or declared variable (NLP,
  MILP, MINLP), exactly when the backend returns status \<^verbatim>\<open>ok\<close> and termination condition
  \<^verbatim>\<open>optimal\<close>; for every other combination it reports the failure and writes no objective
  value and no variable value.
\<close>

theorem resultado_optimo_o_error:
  "(LP_modelo self = Inr m \<longrightarrow>
      (\<exists>t. LP_construir_modelo solve self = Inr (Llamada_solver (ustr ''glpk'') # t) \<and>
           es_informe t (m_i m) (solve (ustr ''glpk'') m) \<and> set (m_i m) = set (elementos self)))
   \<and> (IP_modelo self = Inr m \<longrightarrow>
      (\<exists>t. IP_construir_modelo solve self = Inr (Llamada_solver (ustr ''glpk'') # t) \<and>
           es_informe t (m_i m) (solve (ustr ''glpk'') m) \<and> set (m_i m) = set (elementos self)))
   \<and> (NLP_modelo ev nlp = Inr mn \<longrightarrow>
      (\<exists>t. NLP_construir_modelo ev solve' nlp = Llamada_solver (ustr ''ipopt'') # t \<and>
           es_informe t (variables nlp) (solve' (ustr ''ipopt'') mn)))
   \<and> (MILP_modelo ev milp = Inr mm \<longrightarrow>
      (\<exists>t nombres. MILP_construir_modelo ev solve' milp = Llamada_solver (ustr ''glpk'') # t \<and>
           es_informe t nombres (solve' (ustr ''glpk'') mm) \<and>
           set nombres = set (variables_enteras milp) \<union> set (variables_continuas milp)))
   \<and> (MINLP_modelo ev minlp = Inr mx \<longrightarrow>
      (\<exists>t nombres. MINLP_construir_modelo ev solve' minlp = Llamada_solver (ustr ''ipopt'') # t \<and>
           es_informe t nombres (solve' (ustr ''ipopt'') mx) \<and>
           set nombres = set (variables_enteras minlp) \<union> set (variables_continuas minlp)))"
proof (intro conjI impI)
  assume a: "LP_modelo self = Inr m"
  then have "set (m_i m) = set (elementos self)"
    using armar_modelo_lineal_Inr(1) [of NonNegativeReals self m]
    by (simp add: LP_modelo_def set_pyomo_Set)
  with a show "\<exists>t. LP_construir_modelo solve self = Inr (Llamada_solver (ustr ''glpk'') # t) \<and>
           es_informe t (m_i m) (solve (ustr ''glpk'') m) \<and> set (m_i m) = set (elementos self)"
    by (simp add: LP_modelo_def LP_construir_modelo_def construir_lineal_ok es_informe_interpretar)
next
  assume a: "IP_modelo self = Inr m"
  then have "set (m_i m) = set (elementos self)"
    using armar_modelo_lineal_Inr(1) [of NonNegativeIntegers self m]
    by (simp add: IP_modelo_def set_pyomo_Set)
  with a show "\<exists>t. IP_construir_modelo solve self = Inr (Llamada_solver (ustr ''glpk'') # t) \<and>
           es_informe t (m_i m) (solve (ustr ''glpk'') m) \<and> set (m_i m) = set (elementos self)"
    by (simp add: IP_modelo_def IP_construir_modelo_def construir_lineal_ok es_informe_interpretar)
next
  assume "NLP_modelo ev nlp = Inr mn"
  then show "\<exists>t. NLP_construir_modelo ev solve' nlp = Llamada_solver (ustr ''ipopt'') # t \<and>
           es_informe t (variables nlp) (solve' (ustr ''ipopt'') mn)"
    by (simp add: NLP_construir_modelo_def es_informe_interpretar)
next
  assume a: "MILP_modelo ev milp = Inr mm"
  let ?ns = "claves (variables_enteras milp @ variables_continuas milp)"
  from a have "MILP_construir_modelo ev solve' milp =
      Llamada_solver (ustr ''glpk'') # interpretar True ?ns (solve' (ustr ''glpk'') mm)"
    by (simp add: MILP_construir_modelo_def)
  moreover have "es_informe (interpretar True ?ns (solve' (ustr ''glpk'') mm)) ?ns (solve' (ustr ''glpk'') mm)"
    by (rule es_informe_interpretar)
  moreover have "set ?ns = set (variables_enteras milp) \<union> set (variables_continuas milp)"
    by (simp add: set_claves)
  ultimately show "\<exists>t nombres. MILP_construir_modelo ev solve' milp = Llamada_solver (ustr ''glpk'') # t \<and>
           es_informe t nombres (solve' (ustr ''glpk'') mm) \<and>
           set nombres = set (variables_enteras milp) \<union> set (variables_continuas milp)"
    by blast
next
  assume a: "MINLP_modelo ev minlp = Inr mx"
  let ?ns = "map fst (MINLP_variables minlp)"
  from a have "MINLP_construir_modelo ev solve' minlp =
      Llamada_solver (ustr ''ipopt'') # interpretar False ?ns (solve' (ustr ''ipopt'') mx)"
    by (simp add: MINLP_construir_modelo_def)
  moreover have "es_informe (interpretar False ?ns (solve' (ustr ''ipopt'') mx)) ?ns (solve' (ustr ''ipopt'') mx)"
    by (rule es_informe_interpretar)
  moreover have "set ?ns = set (variables_enteras minlp) \<union> set (variables_continuas minlp)"
    by (simp add: MINLP_nombres set_pyomo_Set)
  ultimately show "\<exists>t nombres. MINLP_construir_modelo ev solve' minlp = Llamada_solver (ustr ''ipopt'') # t \<and>
           es_informe t nombres (solve' (ustr ''ipopt'') mx) \<and>
           set nombres = set (variables_enteras minlp) \<union> set (variables_continuas minlp)"
    by blast
qed

text \<open>The furniture problem with a backend that answers optimal, and the mixed program
  with a backend that answers infeasible.\<close>

theorem resultado_optimo_o_error_witness:
  "(\<exists>t. LP_construir_modelo solve_ejemplo lp_muebles = Inr (Llamada_solver (ustr ''glpk'') # t) \<and>
        Exito \<in> set t \<and> objetivos t = [0] \<and>
        valores t = [(ustr ''Desk'', 0), (ustr ''Table'', 0), (ustr ''Chairs'', 0)])
   \<and> (\<exists>t. MILP_construir_modelo (py_eval python_ejemplo) solve_infactible milp_xy
          = Llamada_solver (ustr ''glpk'') # t \<and>
        Error_sin_optimo \<in> set t \<and> objetivos t = [] \<and> valores t = [])"
proof -
  obtain m where m: "LP_modelo lp_muebles = Inr m"
    and mi: "m_i m = [ustr ''Desk'', ustr ''Table'', ustr ''Chairs'']"
    by (simp add: LP_modelo_def muebles_modelo)
  have p: "primera_falla (py_eval python_ejemplo)
      (enlace (variables_enteras milp_xy @ variables_continuas milp_xy)) milp_xy = None"
    by (simp add: primera_falla_def milp_xy_def ejemplo_defs)
  from MILP_construir_ok [OF p] obtain mm where mm: "MILP_modelo (py_eval python_ejemplo) milp_xy = Inr mm"
    by blast
  note t = resultado_optimo_o_error [where self = lp_muebles and solve = solve_ejemplo and m = m
      and ev = "py_eval python_ejemplo" and milp = milp_xy and mm = mm and solve' = solve_infactible]
  from t [THEN conjunct1] m obtain t1 where
    t1: "LP_construir_modelo solve_ejemplo lp_muebles = Inr (Llamada_solver (ustr ''glpk'') # t1)"
      "es_informe t1 (m_i m) (solve_ejemplo (ustr ''glpk'') m)"
    by blast
  from t1(2) mi have a: "Exito \<in> set t1 \<and> objetivos t1 = [0] \<and>
        valores t1 = [(ustr ''Desk'', 0), (ustr ''Table'', 0), (ustr ''Chairs'', 0)]"
    by (simp add: es_informe_def solve_ejemplo_def)
  from t [THEN conjunct2, THEN conjunct2, THEN conjunct2, THEN conjunct1] mm obtain t2 ns where
    t2: "MILP_construir_modelo (py_eval python_ejemplo) solve_infactible milp_xy
          = Llamada_solver (ustr ''glpk'') # t2"
      "es_informe t2 ns (solve_infactible (ustr ''glpk'') mm)"
    by blast
  from t2(2) have b: "Error_sin_optimo \<in> set t2 \<and> objetivos t2 = [] \<and> valores t2 = []"
    by (simp add: es_informe_def solve_infactible_def ustr_def)
  from t1(1) a t2(1) b show ?thesis by blast
qed

section \<open>Properties of the variable declarations\<close>

lemma map_of_const:
  "map_of (map (\<lambda>e. (e, d)) xs) v = (if v \<in> set xs then Some d else None)"
  by (induction xs) auto

lemma map_of_filter_otros:
  "map_of (filter (\<lambda>kc. fst kc \<noteq> v) model) k = (if k = v then None else map_of model k)"
  by (induction model) auto

lemma map_of_setattr:
  "map_of (setattr model v c) k = (if k = v then Some c else map_of model k)"
  by (auto simp: setattr_def map_of_filter_otros map_add_def split: option.splits)

lemma keys_setattr: "fst ` set (setattr model v c) = insert v (fst ` set model)"
  by (force simp: setattr_def)

lemma distinct_setattr:
  "distinct (map fst model) \<Longrightarrow> distinct (map fst (setattr model v c))"
  by (auto simp: setattr_def distinct_map_filter)

lemma fold_setattr:
  "map_of (fold (\<lambda>v model. setattr model v d) xs model) k =
     (if k \<in> set xs then Some d else map_of model k)"
  "fst ` set (fold (\<lambda>v model. setattr model v d) xs model) = set xs \<union> fst ` set model"
  "distinct (map fst model) \<Longrightarrow> distinct (map fst (fold (\<lambda>v model. setattr model v d) xs model))"
proof (induction xs arbitrary: model)
  case Nil
  { case 1 show ?case by simp }
  { case 2 show ?case by simp }
  { case 3 then show ?case by simp }
next
  case (Cons x xs)
  { case 1 show ?case by (simp add: Cons.IH(1) map_of_setattr) }
  { case 2 show ?case by (simp add: Cons.IH(2) keys_setattr) }
  { case 3 then show ?case by (simp add: Cons.IH(3) distinct_setattr) }
qed

lemma MILP_dominios:
  "map_of (MILP_variables self) k =
     (if k \<in> set (variables_continuas self) then Some Reals
      else if k \<in> set (variables_enteras self) then Some Integers else None)"
  by (simp add: MILP_variables_def fold_setattr(1))

lemma MILP_nombres:
  "set (map fst (MILP_variables self)) = set (variables_enteras self) \<union> set (variables_continuas self)"
  "distinct (map fst (MILP_variables self))"
  by (auto simp: MILP_variables_def fold_setattr(2) intro!: fold_setattr(3))

lemma map_of_set_domain:
  "map_of (set_domain vars v d) k =
     (if k = v \<and> v \<in> fst ` set vars then Some d else map_of vars k)"
  by (induction vars) (force simp: set_domain_def)+

lemma map_of_fold_set_domain:
  "map_of (fold (\<lambda>v vars. set_domain vars v d) xs vars) k =
     (if k \<in> set xs \<and> k \<in> fst ` set vars then Some d else map_of vars k)"
proof (induction xs arbitrary: vars)
  case Nil
  show ?case by simp
next
  case (Cons x xs)
  have "fst ` set (set_domain vars x d) = fst ` set vars"
    using map_fst_set_domain [of vars x d] by (metis set_map)
  then show ?case
    by (auto simp: Cons.IH map_of_set_domain)
qed

lemma MINLP_dominios:
  "map_of (MINLP_variables self) k =
     (if k \<in> set (variables_enteras self) then Some Integers
      else if k \<in> set (variables_continuas self) then Some Reals else None)"
  by (auto simp: MINLP_variables_def Let_def map_of_fold_set_domain map_of_const set_pyomo_Set
      image_image)

lemma armar_modelo_expr_vars:
  "armar_modelo_expr ev declaradas vars self = Inr m \<Longrightarrow> m_vars m = declaradas"
  by (auto simp: armar_modelo_expr_def split: sum.splits)

lemma lineal_dominios:
  assumes "armar_modelo_lineal dm self = Inr m"
  shows "distinct (map fst (m_vars m)) \<and> set (map fst (m_vars m)) = set (elementos self) \<and>
         (\<forall>i \<in> set (elementos self). map_of (m_vars m) i = Some dm)"
  using armar_modelo_lineal_Inr(2) [OF assms]
  by (simp add: comp_def distinct_pyomo_Set set_pyomo_Set map_of_const)

text \<open>
  C8 (amended). Every model build declares its decision variables with the domain of its
  class: LP one continuous non-negative variable per element; IP one non-negative
  integer variable per element; NLP one continuous variable of unrestricted sign per
  declared name; MILP and MINLP one variable per declared name, where every name declared
  integer and not also continuous has the integer domain and every name declared
  continuous and not also integer has the continuous domain.
\<close>

theorem dominio_por_clase:
  "(LP_modelo self = Inr m \<longrightarrow>
      distinct (map fst (m_vars m)) \<and> set (map fst (m_vars m)) = set (elementos self) \<and>
      (\<forall>i \<in> set (elementos self). map_of (m_vars m) i = Some NonNegativeReals))
   \<and> (IP_modelo self = Inr m \<longrightarrow>
      distinct (map fst (m_vars m)) \<and> set (map fst (m_vars m)) = set (elementos self) \<and>
      (\<forall>i \<in> set (elementos self). map_of (m_vars m) i = Some NonNegativeIntegers))
   \<and> (NLP_modelo ev nlp = Inr mn \<longrightarrow>
      distinct (map fst (m_vars mn)) \<and> set (map fst (m_vars mn)) = set (variables nlp) \<and>
      (\<forall>v \<in> set (variables nlp). map_of (m_vars mn) v = Some Reals))
   \<and> (MILP_modelo ev milp = Inr mm \<longrightarrow>
      distinct (map fst (m_vars mm)) \<and>
      set (map fst (m_vars mm)) = set (variables_enteras milp) \<union> set (variables_continuas milp) \<and>
      (\<forall>v \<in> set (variables_enteras milp).
         v \<notin> set (variables_continuas milp) \<longrightarrow> map_of (m_vars mm) v = Some Integers) \<and>
      (\<forall>v \<in> set (variables_continuas milp).
         v \<notin> set (variables_enteras milp) \<longrightarrow> map_of (m_vars mm) v = Some Reals))
   \<and> (MINLP_modelo ev minlp = Inr mx \<longrightarrow>
      distinct (map fst (m_vars mx)) \<and>
      set (map fst (m_vars mx)) = set (variables_enteras minlp) \<union> set (variables_continuas minlp) \<and>
      (\<forall>v \<in> set (variables_enteras minlp).
         v \<notin> set (variables_continuas minlp) \<longrightarrow> map_of (m_vars mx) v = Some Integers) \<and>
      (\<forall>v \<in> set (variables_continuas minlp).
         v \<notin> set (variables_enteras minlp) \<longrightarrow> map_of (m_vars mx) v = Some Reals))"
proof (intro conjI)
  show "LP_modelo self = Inr m \<longrightarrow>
      distinct (map fst (m_vars m)) \<and> set (map fst (m_vars m)) = set (elementos self) \<and>
      (\<forall>i \<in> set (elementos self). map_of (m_vars m) i = Some NonNegativeReals)"
    unfolding LP_modelo_def using lineal_dominios by blast
  show "IP_modelo self = Inr m \<longrightarrow>
      distinct (map fst (m_vars m)) \<and> set (map fst (m_vars m)) = set (elementos self) \<and>
      (\<forall>i \<in> set (elementos self). map_of (m_vars m) i = Some NonNegativeIntegers)"
    unfolding IP_modelo_def using lineal_dominios by blast
  show "NLP_modelo ev nlp = Inr mn \<longrightarrow>
      distinct (map fst (m_vars mn)) \<and> set (map fst (m_vars mn)) = set (variables nlp) \<and>
      (\<forall>v \<in> set (variables nlp). map_of (m_vars mn) v = Some Reals)"
  proof
    assume "NLP_modelo ev nlp = Inr mn"
    then have "m_vars mn = NLP_variables nlp"
      unfolding NLP_modelo_def by (rule armar_modelo_expr_vars)
    then show "distinct (map fst (m_vars mn)) \<and> set (map fst (m_vars mn)) = set (variables nlp) \<and>
      (\<forall>v \<in> set (variables nlp). map_of (m_vars mn) v = Some Reals)"
      by (simp add: NLP_variables_def comp_def distinct_pyomo_Set set_pyomo_Set map_of_const)
  qed
  show "MILP_modelo ev milp = Inr mm \<longrightarrow>
      distinct (map fst (m_vars mm)) \<and>
      set (map fst (m_vars mm)) = set (variables_enteras milp) \<union> set (variables_continuas milp) \<and>
      (\<forall>v \<in> set (variables_enteras milp).
         v \<notin> set (variables_continuas milp) \<longrightarrow> map_of (m_vars mm) v = Some Integers) \<and>
      (\<forall>v \<in> set (variables_continuas milp).
         v \<notin> set (variables_enteras milp) \<longrightarrow> map_of (m_vars mm) v = Some Reals)"
  proof
    assume "MILP_modelo ev milp = Inr mm"
    then have "m_vars mm = MILP_variables milp"
      unfolding MILP_modelo_def by (rule armar_modelo_expr_vars)
    then show "distinct (map fst (m_vars mm)) \<and>
      set (map fst (m_vars mm)) = set (variables_enteras milp) \<union> set (variables_continuas milp) \<and>
      (\<forall>v \<in> set (variables_enteras milp).
         v \<notin> set (variables_continuas milp) \<longrightarrow> map_of (m_vars mm) v = Some Integers) \<and>
      (\<forall>v \<in> set (variables_continuas milp).
         v \<notin> set (variables_enteras milp) \<longrightarrow> map_of (m_vars mm) v = Some Reals)"
      using MILP_nombres [of milp] by (simp add: MILP_dominios)
  qed
  show "MINLP_modelo ev minlp = Inr mx \<longrightarrow>
      distinct (map fst (m_vars mx)) \<and>
      set (map fst (m_vars mx)) = set (variables_enteras minlp) \<union> set (variables_continuas minlp) \<and>
      (\<forall>v \<in> set (variables_enteras minlp).
         v \<notin> set (variables_continuas minlp) \<longrightarrow> map_of (m_vars mx) v = Some Integers) \<and>
      (\<forall>v \<in> set (variables_continuas minlp).
         v \<notin> set (variables_enteras minlp) \<longrightarrow> map_of (m_vars mx) v = Some Reals)"
  proof
    assume "MINLP_modelo ev minlp = Inr mx"
    then have "m_vars mx = MINLP_variables minlp"
      unfolding MINLP_modelo_def by (rule armar_modelo_expr_vars)
    then show "distinct (map fst (m_vars mx)) \<and>
      set (map fst (m_vars mx)) = set (variables_enteras minlp) \<union> set (variables_continuas minlp) \<and>
      (\<forall>v \<in> set (variables_enteras minlp).
         v \<notin> set (variables_continuas minlp) \<longrightarrow> map_of (m_vars mx) v = Some Integers) \<and>
      (\<forall>v \<in> set (variables_continuas minlp).
         v \<notin> set (variables_enteras minlp) \<longrightarrow> map_of (m_vars mx) v = Some Reals)"
      by (simp add: MINLP_dominios MINLP_nombres distinct_pyomo_Set set_pyomo_Set)
  qed
qed

text \<open>The furniture problem as LP and IP, \<^verbatim>\<open>abs(x)\<close> as NLP, and the mixed program over the
  integer \<^verbatim>\<open>x\<close> and the continuous \<^verbatim>\<open>y\<close> as MILP and MINLP.\<close>

theorem dominio_por_clase_witness:
  "(\<exists>m. LP_modelo lp_muebles = Inr m \<and> map_of (m_vars m) (ustr ''Desk'') = Some NonNegativeReals)
   \<and> (\<exists>m. IP_modelo lp_muebles = Inr m \<and> map_of (m_vars m) (ustr ''Desk'') = Some NonNegativeIntegers)
   \<and> (\<exists>m. NLP_modelo (py_eval python_ejemplo) nlp_abs = Inr m \<and>
          map_of (m_vars m) (ustr ''x'') = Some Reals)
   \<and> (\<exists>m. MILP_modelo (py_eval python_ejemplo) milp_xy = Inr m \<and>
          map_of (m_vars m) (ustr ''x'') = Some Integers \<and> map_of (m_vars m) (ustr ''y'') = Some Reals)
   \<and> (\<exists>m. MINLP_modelo (py_eval python_ejemplo) milp_xy = Inr m \<and>
          map_of (m_vars m) (ustr ''x'') = Some Integers \<and> map_of (m_vars m) (ustr ''y'') = Some Reals)"
proof -
  obtain ma where ma: "LP_modelo lp_muebles = Inr ma"
    by (simp add: LP_modelo_def muebles_modelo)
  obtain mb where mb: "IP_modelo lp_muebles = Inr mb"
    by (simp add: IP_modelo_def muebles_modelo)
  have "primera_falla (py_eval python_ejemplo) (enlace (variables nlp_abs)) nlp_abs = None"
    by (simp add: primera_falla_def nlp_abs_def ejemplo_defs)
  from NLP_construir_ok [OF this] obtain mc where mc: "NLP_modelo (py_eval python_ejemplo) nlp_abs = Inr mc"
    by blast
  have "primera_falla (py_eval python_ejemplo)
      (enlace (variables_enteras milp_xy @ variables_continuas milp_xy)) milp_xy = None"
    by (simp add: primera_falla_def milp_xy_def ejemplo_defs)
  from MILP_construir_ok [OF this] obtain md where md: "MILP_modelo (py_eval python_ejemplo) milp_xy = Inr md"
    by blast
  have "primera_falla (py_eval python_ejemplo)
      (enlace (map fst (MINLP_variables milp_xy))) milp_xy = None"
    by (simp add: primera_falla_def milp_xy_def ejemplo_defs MINLP_variables_def pyomo_Set_def
        set_domain_def)
  from MINLP_construir_ok [OF this] obtain me where me: "MINLP_modelo (py_eval python_ejemplo) milp_xy = Inr me"
    by blast
  have el: "ustr ''Desk'' \<in> set (elementos lp_muebles)"
    by (simp add: lp_muebles_def)
  have vx: "ustr ''x'' \<in> set (variables nlp_abs)"
    by (simp add: nlp_abs_def)
  have ex: "ustr ''x'' \<in> set (variables_enteras milp_xy)" "ustr ''x'' \<notin> set (variables_continuas milp_xy)"
    "ustr ''y'' \<in> set (variables_continuas milp_xy)" "ustr ''y'' \<notin> set (variables_enteras milp_xy)"
    by (simp_all add: milp_xy_def ustr_def)
  note t = dominio_por_clase [where ev = "py_eval python_ejemplo" and self = lp_muebles
      and nlp = nlp_abs and milp = milp_xy and minlp = milp_xy and mn = mc and mm = md and mx = me]
  from t [where m = ma, THEN conjunct1] ma el
  have a: "map_of (m_vars ma) (ustr ''Desk'') = Some NonNegativeReals" by blast
  from t [where m = mb, THEN conjunct2, THEN conjunct1] mb el
  have b: "map_of (m_vars mb) (ustr ''Desk'') = Some NonNegativeIntegers" by blast
  from t [THEN conjunct2, THEN conjunct2, THEN conjunct1] mc vx
  have c: "map_of (m_vars mc) (ustr ''x'') = Some Reals" by blast
  from t [THEN conjunct2, THEN conjunct2, THEN conjunct2, THEN conjunct1] md ex
  have d: "map_of (m_vars md) (ustr ''x'') = Some Integers \<and> map_of (m_vars md) (ustr ''y'') = Some Reals"
    by blast
  from t [THEN conjunct2, THEN conjunct2, THEN conjunct2, THEN conjunct2] me ex
  have e: "map_of (m_vars me) (ustr ''x'') = Some Integers \<and> map_of (m_vars me) (ustr ''y'') = Some Reals"
    by blast
  from ma a mb b mc c md d me e show ?thesis by blast
qed

text \<open>
  As the specification words it, C8 fails when a name is declared both integer and continuous. With
  \<^verbatim>\<open>x\<close> in both lists, MILP builds a model whose \<^verbatim>\<open>x\<close> is continuous although it was
  declared integer, and MINLP one whose \<^verbatim>\<open>x\<close> is integer although it was declared
  continuous.
\<close>

theorem dominio_declarado_dos_veces_counterexample:
  "variables_enteras milp_xx = [ustr ''x'']
   \<and> variables_continuas milp_xx = [ustr ''x'', ustr ''y'']
   \<and> MILP_modelo (py_eval python_ejemplo) milp_xx =
       Inr \<lparr>m_i = [], m_params = [], m_vars = [(ustr ''x'', Reals), (ustr ''y'', Reals)],
            m_objetivo = (Aplicacion (ustr ''+'')
               [Var (ustr ''x''), Aplicacion (ustr ''*'') [Num 2, Var (ustr ''y'')]], Minimize),
            m_restricciones = []\<rparr>
   \<and> MINLP_modelo (py_eval python_ejemplo) milp_xx =
       Inr \<lparr>m_i = [], m_params = [], m_vars = [(ustr ''x'', Integers), (ustr ''y'', Reals)],
            m_objetivo = (Aplicacion (ustr ''+'')
               [Var (ustr ''x''), Aplicacion (ustr ''*'') [Num 2, Var (ustr ''y'')]], Minimize),
            m_restricciones = []\<rparr>"
  by (simp add: milp_xx_def ejemplo_defs MILP_modelo_def MINLP_modelo_def armar_modelo_expr_def
      MILP_variables_def MINLP_variables_def setattr_def set_domain_def pyomo_Set_def)

end
